theory Spec2Isabelle
  imports Complex_Main
begin

section \<open>Scalars, vectors and rigid transforms\<close>

text \<open>
  The half-space shape of \<^verbatim>\<open>include/fcl/shape/halfspace.h\<close> and the distance driver
  of \<^verbatim>\<open>include/fcl/distance.h\<close>, as HOL functions. The template parameter
  \<^verbatim>\<open>ScalarT\<close> (\<^verbatim>\<open>float\<close> or \<^verbatim>\<open>double\<close>) is modelled by \<^typ>\<open>real\<close>: a finite
  scalar is the real number it denotes. Comparisons (\<^verbatim>\<open>==\<close>, \<^verbatim>\<open><\<close>, \<^verbatim>\<open>>\<close>) and
  negation of finite scalars are exact, so the control flow of the fitters on given
  scalars is the program's. Sums, products, quotients and square roots are the exact
  ones: the program rounds each of them, overflows to an infinity above the largest
  finite value and underflows to zero below the least one. What is proved of
  \<open>norm3\<close>, \<open>unitNormalTest\<close>, \<open>transform\<close> and the point queries is therefore
  proved of the half-space in exact arithmetic; of the program it holds at the inputs
  where no operation rounds, as in the examples with small integer coefficients and
  unit axis normals. At the diagonal normals below the program rounds, the two equal
  components stay equal and the zero component stays zero, so the branch taken is the
  same.

  \<^verbatim>\<open>Vector3\<close>, the 3x3 matrix and \<^verbatim>\<open>Transform3\<close> are Eigen types: a vector is its
  three coefficients \<^verbatim>\<open>v[0]\<close>, \<^verbatim>\<open>v[1]\<close>, \<^verbatim>\<open>v[2]\<close>, a matrix its three rows, a
  transform its linear part \<^verbatim>\<open>tf.linear()\<close> and its translation
  \<^verbatim>\<open>tf.translation()\<close>.
\<close>

datatype Vector3 = Vec3 (c0: real) (c1: real) (c2: real)

datatype Matrix3 = Mat3 (row0: Vector3) (row1: Vector3) (row2: Vector3)

datatype Transform3 = Transform3 (linear: Matrix3) (translation: Vector3)

definition dot :: "Vector3 \<Rightarrow> Vector3 \<Rightarrow> real" where
  "dot u v = c0 u * c0 v + c1 u * c1 v + c2 u * c2 v"

definition norm3 :: "Vector3 \<Rightarrow> real" where
  "norm3 v = sqrt (dot v v)"

definition scale :: "Vector3 \<Rightarrow> real \<Rightarrow> Vector3" where
  \<comment> \<open>\<^verbatim>\<open>v *= s\<close>\<close>
  "scale v s = Vec3 (c0 v * s) (c1 v * s) (c2 v * s)"

definition mat_vec :: "Matrix3 \<Rightarrow> Vector3 \<Rightarrow> Vector3" where
  \<comment> \<open>\<^verbatim>\<open>M * v\<close>\<close>
  "mat_vec M v = Vec3 (dot (row0 M) v) (dot (row1 M) v) (dot (row2 M) v)"

definition add3 :: "Vector3 \<Rightarrow> Vector3 \<Rightarrow> Vector3" where
  "add3 u v = Vec3 (c0 u + c0 v) (c1 u + c1 v) (c2 u + c2 v)"

definition col :: "Matrix3 \<Rightarrow> nat \<Rightarrow> Vector3" where
  "col M j =
     (if j = 0 then Vec3 (c0 (row0 M)) (c0 (row1 M)) (c0 (row2 M))
      else if j = 1 then Vec3 (c1 (row0 M)) (c1 (row1 M)) (c1 (row2 M))
      else Vec3 (c2 (row0 M)) (c2 (row1 M)) (c2 (row2 M)))"

definition mat_mul :: "Matrix3 \<Rightarrow> Matrix3 \<Rightarrow> Matrix3" where
  "mat_mul A B =
     Mat3 (Vec3 (dot (row0 A) (col B 0)) (dot (row0 A) (col B 1)) (dot (row0 A) (col B 2)))
          (Vec3 (dot (row1 A) (col B 0)) (dot (row1 A) (col B 1)) (dot (row1 A) (col B 2)))
          (Vec3 (dot (row2 A) (col B 0)) (dot (row2 A) (col B 1)) (dot (row2 A) (col B 2)))"

definition Identity :: Transform3 where
  \<comment> \<open>\<^verbatim>\<open>Transform3::Identity()\<close>\<close>
  "Identity = Transform3 (Mat3 (Vec3 1 0 0) (Vec3 0 1 0) (Vec3 0 0 1)) (Vec3 0 0 0)"

definition apply_tf :: "Transform3 \<Rightarrow> Vector3 \<Rightarrow> Vector3" where
  \<comment> \<open>\<^verbatim>\<open>x --> x' = R x + T\<close>, the comment of \<^verbatim>\<open>transform\<close>\<close>
  "apply_tf tf p = add3 (mat_vec (linear tf) p) (translation tf)"

definition compose :: "Transform3 \<Rightarrow> Transform3 \<Rightarrow> Transform3" where
  \<comment> \<open>Modelled from the spec: the product of two transforms is Eigen's and is not in the
      sources. \<open>compose T2 T1\<close> is the transform that applies \<open>T1\<close> first and \<open>T2\<close>
      second, for points transformed as \<open>x' = R x + T\<close>.\<close>
  "compose T2 T1 =
     Transform3 (mat_mul (linear T2) (linear T1))
                (add3 (mat_vec (linear T2) (translation T1)) (translation T2))"

definition orthonormal :: "Matrix3 \<Rightarrow> bool" where
  \<comment> \<open>the columns are pairwise orthogonal unit vectors: \<open>R\<^sup>T R = I\<close>\<close>
  "orthonormal R \<longleftrightarrow>
     dot (col R 0) (col R 0) = 1 \<and> dot (col R 1) (col R 1) = 1 \<and> dot (col R 2) (col R 2) = 1 \<and>
     dot (col R 0) (col R 1) = 0 \<and> dot (col R 0) (col R 2) = 0 \<and> dot (col R 1) (col R 2) = 0"

definition rigid :: "Transform3 \<Rightarrow> bool" where
  "rigid tf \<longleftrightarrow> orthonormal (linear tf)"

section \<open>The half-space\<close>

text \<open>
  \<^verbatim>\<open>class Halfspace\<close>: the public fields \<^verbatim>\<open>n\<close> and \<^verbatim>\<open>d\<close>. \<open>Halfspace_raw\<close> is the
  member initialisation \<^verbatim>\<open>n(n), d(d)\<close> before the constructor body runs.
\<close>

datatype Halfspace = Halfspace_raw (n_of: Vector3) (d_of: real)

definition unitNormalTest :: "Halfspace \<Rightarrow> Halfspace" where
  "unitNormalTest h =
     (let l = norm3 (n_of h) in
      if l > 0 then
        (let inv_l = 1 / l in Halfspace_raw (scale (n_of h) inv_l) (d_of h * inv_l))
      else Halfspace_raw (Vec3 1 0 0) 0)"

definition Halfspace_nd :: "Vector3 \<Rightarrow> real \<Rightarrow> Halfspace" where
  \<comment> \<open>\<^verbatim>\<open>Halfspace(const Vector3& n, ScalarT d)\<close>\<close>
  "Halfspace_nd n d = unitNormalTest (Halfspace_raw n d)"

definition Halfspace_abcd :: "real \<Rightarrow> real \<Rightarrow> real \<Rightarrow> real \<Rightarrow> Halfspace" where
  \<comment> \<open>\<^verbatim>\<open>Halfspace(ScalarT a, ScalarT b, ScalarT c, ScalarT d)\<close>\<close>
  "Halfspace_abcd a b c d = unitNormalTest (Halfspace_raw (Vec3 a b c) d)"

definition Halfspace_default :: Halfspace where
  \<comment> \<open>\<^verbatim>\<open>Halfspace()\<close>\<close>
  "Halfspace_default = Halfspace_raw (Vec3 1 0 0) 0"

definition signedDistance :: "Halfspace \<Rightarrow> Vector3 \<Rightarrow> real" where
  "signedDistance h p = dot (n_of h) p - d_of h"

definition distance_to :: "Halfspace \<Rightarrow> Vector3 \<Rightarrow> real" where
  \<comment> \<open>\<^verbatim>\<open>Halfspace::distance\<close>\<close>
  "distance_to h p = \<bar>dot (n_of h) p - d_of h\<bar>"

definition transform :: "Halfspace \<Rightarrow> Transform3 \<Rightarrow> Halfspace" where
  "transform a tf =
     (let n = mat_vec (linear tf) (n_of a);
          d = d_of a + dot n (translation tf)
      in Halfspace_nd n d)"

text \<open>
  The class comment: points with \<open>n \<cdot> x < d\<close> are inside the half-space, points with
  \<open>n \<cdot> x > d\<close> outside; the comment of \<^verbatim>\<open>transform\<close> takes the closed region
  \<open>n \<cdot> x \<le> d\<close> as the shape.
\<close>

definition inside_open :: "Halfspace \<Rightarrow> Vector3 \<Rightarrow> bool" where
  "inside_open h p \<longleftrightarrow> dot (n_of h) p < d_of h"

definition outside_open :: "Halfspace \<Rightarrow> Vector3 \<Rightarrow> bool" where
  "outside_open h p \<longleftrightarrow> dot (n_of h) p > d_of h"

definition on_plane :: "Halfspace \<Rightarrow> Vector3 \<Rightarrow> bool" where
  "on_plane h p \<longleftrightarrow> dot (n_of h) p = d_of h"

definition in_halfspace :: "Halfspace \<Rightarrow> Vector3 \<Rightarrow> bool" where
  "in_halfspace h p \<longleftrightarrow> dot (n_of h) p \<le> d_of h"

definition unit_normal :: "Halfspace \<Rightarrow> bool" where
  "unit_normal h \<longleftrightarrow> norm3 (n_of h) = 1"

section \<open>Bounding volumes of a half-space\<close>

text \<open>
  \<^verbatim>\<open>n[i]\<close> reads a coefficient and \<^verbatim>\<open>v[i] = a\<close> writes one; the fitters only use the
  literal indices 0, 1 and 2. \<^verbatim>\<open>FCL_REAL\<close> is \<^verbatim>\<open>double\<close>, and
  \<^verbatim>\<open>std::numeric_limits<T>::max()\<close> is the largest finite value of the IEEE format.
\<close>

definition coeff :: "Vector3 \<Rightarrow> nat \<Rightarrow> real" where
  "coeff v i = (if i = 0 then c0 v else if i = 1 then c1 v else c2 v)"

definition set_coeff :: "Vector3 \<Rightarrow> nat \<Rightarrow> real \<Rightarrow> Vector3" where
  "set_coeff v i a =
     (if i = 0 then Vec3 a (c1 v) (c2 v)
      else if i = 1 then Vec3 (c0 v) a (c2 v)
      else Vec3 (c0 v) (c1 v) a)"

definition Constant :: "real \<Rightarrow> Vector3" where
  \<comment> \<open>\<^verbatim>\<open>Vector3d::Constant(a)\<close>\<close>
  "Constant a = Vec3 a a a"

datatype ScalarT = Float | Double

definition numeric_limits_max :: "ScalarT \<Rightarrow> real" where
  "numeric_limits_max T =
     (case T of Float \<Rightarrow> (2 - 1 / 2 ^ 23) * 2 ^ 127
              | Double \<Rightarrow> (2 - 1 / 2 ^ 52) * 2 ^ 1023)"

definition FCL_REAL_max :: real where
  "FCL_REAL_max = numeric_limits_max Double"

datatype AABB = AABB (aabb_min: Vector3) (aabb_max: Vector3)

definition set_min :: "AABB \<Rightarrow> nat \<Rightarrow> real \<Rightarrow> AABB" where
  \<comment> \<open>\<^verbatim>\<open>bv_.min_[i] = a\<close>\<close>
  "set_min bv i a = AABB (set_coeff (aabb_min bv) i a) (aabb_max bv)"

definition set_max :: "AABB \<Rightarrow> nat \<Rightarrow> real \<Rightarrow> AABB" where
  \<comment> \<open>\<^verbatim>\<open>bv_.max_[i] = a\<close>\<close>
  "set_max bv i a = AABB (aabb_min bv) (set_coeff (aabb_max bv) i a)"

definition fit_AABB :: "Halfspace \<Rightarrow> AABB" where
  \<comment> \<open>the body of \<^verbatim>\<open>ComputeBVImpl<ScalarT, AABBd, Halfspace<ScalarT>>\<close> after the
      transform: from \<^verbatim>\<open>new_s\<close> to the local \<^verbatim>\<open>bv_\<close> that is assigned to the output
      parameter\<close>
  "fit_AABB new_s =
     (let n = n_of new_s;
          d = d_of new_s;
          bv = AABB (Constant (- FCL_REAL_max)) (Constant FCL_REAL_max)
      in if coeff n 1 = 0 \<and> coeff n 2 = 0 then
           (if coeff n 0 < 0 then set_min bv 0 (- d)
            else if coeff n 0 > 0 then set_max bv 0 d
            else bv)
         else if coeff n 0 = 0 \<and> coeff n 2 = 0 then
           (if coeff n 1 < 0 then set_min bv 1 (- d)
            else if coeff n 1 > 0 then set_max bv 1 d
            else bv)
         else if coeff n 0 = 0 \<and> coeff n 1 = 0 then
           (if coeff n 2 < 0 then set_min bv 2 (- d)
            else if coeff n 2 > 0 then set_max bv 2 d
            else bv)
         else bv)"

definition computeBV_AABB :: "Halfspace \<Rightarrow> Transform3 \<Rightarrow> AABB" where
  \<comment> \<open>\<^verbatim>\<open>ComputeBVImpl<ScalarT, AABBd, Halfspace<ScalarT>>\<close>:
      \<^verbatim>\<open>new_s = transform(s, tf)\<close>, then the body above\<close>
  "computeBV_AABB s tf = (let new_s = transform s tf in fit_AABB new_s)"

definition AABB_contain :: "AABB \<Rightarrow> Vector3 \<Rightarrow> bool" where
  \<comment> \<open>Modelled from the spec: the class \<^verbatim>\<open>AABB\<close> is not in the sources. An
      axis-aligned box is its minimum and its maximum corner; it contains the points
      between them, coordinate by coordinate.\<close>
  "AABB_contain bv p \<longleftrightarrow>
     c0 (aabb_min bv) \<le> c0 p \<and> c0 p \<le> c0 (aabb_max bv) \<and>
     c1 (aabb_min bv) \<le> c1 p \<and> c1 p \<le> c1 (aabb_max bv) \<and>
     c2 (aabb_min bv) \<le> c2 p \<and> c2 p \<le> c2 (aabb_max bv)"

definition representable :: "Vector3 \<Rightarrow> bool" where
  \<comment> \<open>a point whose coordinates are within the finite range of \<^verbatim>\<open>FCL_REAL\<close>\<close>
  "representable p \<longleftrightarrow>
     \<bar>c0 p\<bar> \<le> FCL_REAL_max \<and> \<bar>c1 p\<bar> \<le> FCL_REAL_max \<and> \<bar>c2 p\<bar> \<le> FCL_REAL_max"

text \<open>
  A \<^verbatim>\<open>KDOP<N>\<close> holds \<^verbatim>\<open>N\<close> distances; \<^verbatim>\<open>bv.dist(i)\<close> is a reference to entry
  \<open>i\<close>. The fitters write into the caller's object: the model takes its entries as a
  list and returns the list written. The two initialisation loops are folds over the
  index ranges.
\<close>

type_synonym KDOP = "real list"

definition kdop_reset :: "nat \<Rightarrow> KDOP \<Rightarrow> KDOP" where
  "kdop_reset D bv =
     fold (\<lambda>i b. b[i := FCL_REAL_max]) [D..<2 * D]
       (fold (\<lambda>i b. b[i := - FCL_REAL_max]) [0..<D] bv)"

definition computeBV_KDOP16 :: "Halfspace \<Rightarrow> Transform3 \<Rightarrow> KDOP \<Rightarrow> KDOP" where
  \<comment> \<open>\<^verbatim>\<open>ComputeBVImpl<ScalarT, KDOPd<16>, Halfspace<ScalarT>>\<close>\<close>
  "computeBV_KDOP16 s tf bv0 =
     (let new_s = transform s tf;
          n = n_of new_s;
          d = d_of new_s;
          D = 8;
          bv = kdop_reset D bv0
      in if coeff n 1 = 0 \<and> coeff n 2 = 0 then
           (if coeff n 0 > 0 then bv[D := d] else bv[0 := - d])
         else if coeff n 0 = 0 \<and> coeff n 2 = 0 then
           (if coeff n 1 > 0 then bv[D + 1 := d] else bv[1 := - d])
         else if coeff n 0 = 0 \<and> coeff n 1 = 0 then
           (if coeff n 2 > 0 then bv[D + 2 := d] else bv[2 := - d])
         else if coeff n 2 = 0 \<and> coeff n 0 = coeff n 1 then
           (if coeff n 0 > 0 then bv[D + 3 := coeff n 0 * d * 2]
            else bv[3 := coeff n 0 * d * 2])
         else if coeff n 1 = 0 \<and> coeff n 0 = coeff n 2 then
           (if coeff n 1 > 0 then bv[D + 4 := coeff n 0 * d * 2]
            else bv[4 := coeff n 0 * d * 2])
         else if coeff n 0 = 0 \<and> coeff n 1 = coeff n 2 then
           (if coeff n 1 > 0 then bv[D + 5 := coeff n 1 * d * 2]
            else bv[5 := coeff n 1 * d * 2])
         else if coeff n 2 = 0 \<and> coeff n 0 + coeff n 1 = 0 then
           (if coeff n 0 > 0 then bv[D + 6 := coeff n 0 * d * 2]
            else bv[6 := coeff n 0 * d * 2])
         else if coeff n 1 = 0 \<and> coeff n 0 + coeff n 2 = 0 then
           (if coeff n 0 > 0 then bv[D + 7 := coeff n 0 * d * 2]
            else bv[7 := coeff n 0 * d * 2])
         else bv)"

definition computeBV_KDOP18 :: "Halfspace \<Rightarrow> Transform3 \<Rightarrow> KDOP \<Rightarrow> KDOP" where
  \<comment> \<open>\<^verbatim>\<open>ComputeBVImpl<ScalarT, KDOPd<18>, Halfspace<ScalarT>>\<close>\<close>
  "computeBV_KDOP18 s tf bv0 =
     (let new_s = transform s tf;
          n = n_of new_s;
          d = d_of new_s;
          D = 9;
          bv = kdop_reset D bv0
      in if coeff n 1 = 0 \<and> coeff n 2 = 0 then
           (if coeff n 0 > 0 then bv[D := d] else bv[0 := - d])
         else if coeff n 0 = 0 \<and> coeff n 2 = 0 then
           (if coeff n 1 > 0 then bv[D + 1 := d] else bv[1 := - d])
         else if coeff n 0 = 0 \<and> coeff n 1 = 0 then
           (if coeff n 2 > 0 then bv[D + 2 := d] else bv[2 := - d])
         else if coeff n 2 = 0 \<and> coeff n 0 = coeff n 1 then
           (if coeff n 0 > 0 then bv[D + 3 := coeff n 0 * d * 2]
            else bv[3 := coeff n 0 * d * 2])
         else if coeff n 1 = 0 \<and> coeff n 0 = coeff n 2 then
           (if coeff n 1 > 0 then bv[D + 4 := coeff n 0 * d * 2]
            else bv[4 := coeff n 0 * d * 2])
         else if coeff n 0 = 0 \<and> coeff n 1 = coeff n 2 then
           (if coeff n 1 > 0 then bv[D + 5 := coeff n 1 * d * 2]
            else bv[5 := coeff n 1 * d * 2])
         else if coeff n 2 = 0 \<and> coeff n 0 + coeff n 1 = 0 then
           (if coeff n 0 > 0 then bv[D + 6 := coeff n 0 * d * 2]
            else bv[6 := coeff n 0 * d * 2])
         else if coeff n 1 = 0 \<and> coeff n 0 + coeff n 2 = 0 then
           (if coeff n 0 > 0 then bv[D + 7 := coeff n 0 * d * 2]
            else bv[7 := coeff n 0 * d * 2])
         else if coeff n 0 = 0 \<and> coeff n 1 + coeff n 2 = 0 then
           (if coeff n 1 > 0 then bv[D + 8 := coeff n 1 * d * 2]
            else bv[8 := coeff n 1 * d * 2])
         else bv)"

definition computeBV_KDOP24 :: "Halfspace \<Rightarrow> Transform3 \<Rightarrow> KDOP \<Rightarrow> KDOP" where
  \<comment> \<open>\<^verbatim>\<open>ComputeBVImpl<ScalarT, KDOPd<24>, Halfspace<ScalarT>>\<close>\<close>
  "computeBV_KDOP24 s tf bv0 =
     (let new_s = transform s tf;
          n = n_of new_s;
          d = d_of new_s;
          D = 12;
          bv = kdop_reset D bv0
      in if coeff n 1 = 0 \<and> coeff n 2 = 0 then
           (if coeff n 0 > 0 then bv[D := d] else bv[0 := - d])
         else if coeff n 0 = 0 \<and> coeff n 2 = 0 then
           (if coeff n 1 > 0 then bv[D + 1 := d] else bv[1 := - d])
         else if coeff n 0 = 0 \<and> coeff n 1 = 0 then
           (if coeff n 2 > 0 then bv[D + 2 := d] else bv[2 := - d])
         else if coeff n 2 = 0 \<and> coeff n 0 = coeff n 1 then
           (if coeff n 0 > 0 then bv[D + 3 := coeff n 0 * d * 2]
            else bv[3 := coeff n 0 * d * 2])
         else if coeff n 1 = 0 \<and> coeff n 0 = coeff n 2 then
           (if coeff n 1 > 0 then bv[D + 4 := coeff n 0 * d * 2]
            else bv[4 := coeff n 0 * d * 2])
         else if coeff n 0 = 0 \<and> coeff n 1 = coeff n 2 then
           (if coeff n 1 > 0 then bv[D + 5 := coeff n 1 * d * 2]
            else bv[5 := coeff n 1 * d * 2])
         else if coeff n 2 = 0 \<and> coeff n 0 + coeff n 1 = 0 then
           (if coeff n 0 > 0 then bv[D + 6 := coeff n 0 * d * 2]
            else bv[6 := coeff n 0 * d * 2])
         else if coeff n 1 = 0 \<and> coeff n 0 + coeff n 2 = 0 then
           (if coeff n 0 > 0 then bv[D + 7 := coeff n 0 * d * 2]
            else bv[7 := coeff n 0 * d * 2])
         else if coeff n 0 = 0 \<and> coeff n 1 + coeff n 2 = 0 then
           (if coeff n 1 > 0 then bv[D + 8 := coeff n 1 * d * 2]
            else bv[8 := coeff n 1 * d * 2])
         else if coeff n 0 + coeff n 2 = 0 \<and> coeff n 0 + coeff n 1 = 0 then
           (if coeff n 0 > 0 then bv[D + 9 := coeff n 0 * d * 3]
            else bv[9 := coeff n 0 * d * 3])
         else if coeff n 0 + coeff n 1 = 0 \<and> coeff n 1 + coeff n 2 = 0 then
           (if coeff n 0 > 0 then bv[D + 10 := coeff n 0 * d * 3]
            else bv[10 := coeff n 0 * d * 3])
         else if coeff n 0 + coeff n 1 = 0 \<and> coeff n 0 + coeff n 2 = 0 then
           (if coeff n 1 > 0 then bv[D + 11 := coeff n 1 * d * 3]
            else bv[11 := coeff n 1 * d * 3])
         else bv)"

text \<open>
  The words of the fitting rule for the axis-aligned box: the number of components of a
  normal that are zero.
\<close>

definition zero_components :: "Vector3 \<Rightarrow> nat" where
  "zero_components v = length (filter (\<lambda>i. coeff v i = 0) [0, 1, 2])"

text \<open>
  The words of the fitting rule for the k-direction polytope: the universal polytope has
  its first \<open>D\<close> entries at the lowest and its last \<open>D\<close> entries at the largest finite
  value.
\<close>

definition kdop_universal :: "nat \<Rightarrow> KDOP" where
  "kdop_universal D = replicate D (- FCL_REAL_max) @ replicate D FCL_REAL_max"

definition KDOP_inside :: "(nat \<Rightarrow> Vector3) \<Rightarrow> nat \<Rightarrow> KDOP \<Rightarrow> Vector3 \<Rightarrow> bool" where
  \<comment> \<open>Modelled from the spec: the class \<^verbatim>\<open>KDOP\<close> (\<^verbatim>\<open>BV/kDOP.h\<close>) is not in the
      sources. A k-direction polytope is the region bounded by \<open>D\<close> pairs of parallel
      supporting planes along fixed directions: entry \<open>i\<close> is the least and entry
      \<open>i + D\<close> the greatest support distance along direction \<open>i\<close>, the order in which
      the fitters initialise the entries. The directions are a parameter.\<close>
  "KDOP_inside dirs D bv p =
     list_all (\<lambda>i. bv ! i \<le> dot (dirs i) p \<and> dot (dirs i) p \<le> bv ! (i + D)) [0..<D]"

section \<open>The distance driver\<close>

text \<open>
  The types the driver consumes are declared outside the sources; the model keeps what
  the driver reads of them. \<^verbatim>\<open>OBJECT_TYPE\<close> and the solver selector of the request
  are enums: the driver names two enumerators of each, and every other value the field
  can hold is the constructor \<open>_other\<close>. A \<^verbatim>\<open>NODE_TYPE\<close> is the enum's integer value,
  which the diagnostic prints. A collision geometry is its two virtual getters and an
  identity; a collision object is a geometry and a transform.
\<close>

datatype OBJECT_TYPE = OT_BVH | OT_GEOM | OT_other nat

type_synonym NODE_TYPE = nat

record CollisionGeometry =
  getObjectType :: OBJECT_TYPE
  getNodeType :: NODE_TYPE
  geometry_id :: nat

record CollisionObject =
  collisionGeometry :: CollisionGeometry
  getTransform :: Transform3

datatype GJKSolverType = GST_LIBCCD | GST_INDEP | GST_other nat

record DistanceRequest =
  gjk_solver_type :: GJKSolverType

datatype NarrowPhaseSolver = GJKSolver_libccd | GJKSolver_indep

text \<open>
  What a call does beyond returning a value is recorded in a trace: a solver allocated
  with \<^verbatim>\<open>new\<close> or released with \<^verbatim>\<open>delete\<close> (by address), the construction of the
  function-local static table of a solver type on the first call of
  \<^verbatim>\<open>getDistanceFunctionLookTable\<close>, the warning written to \<^verbatim>\<open>std::cerr\<close> (the text
  is fixed but for the two node types it prints, in this order), and the invocation of
  a routine of the table (its cell, its arguments and the address of the solver it is
  given). The world also holds the addresses of the solvers alive and the solver types
  whose table has been built.
\<close>

datatype event =
    New_solver nat
  | Delete_solver nat
  | Build_table NarrowPhaseSolver
  | Warning NODE_TYPE NODE_TYPE
  | Invoke NODE_TYPE NODE_TYPE CollisionGeometry Transform3 CollisionGeometry Transform3 nat

record world =
  trace :: "event list"
  live :: "nat list"
  built :: "NarrowPhaseSolver list"

text \<open>
  A routine of the table takes the two geometries with their transforms, the solver, the
  request and the result object, and returns the distance and the result object
  written. \<^verbatim>\<open>DistanceFunctionMatrix\<close> is a dense matrix of routine pointers, null
  where a pair is not supported; its contents are built outside the sources and are a
  parameter \<open>tables\<close> of the driver, one matrix for each solver type.
\<close>

type_synonym 'r routine =
  "CollisionGeometry \<Rightarrow> Transform3 \<Rightarrow> CollisionGeometry \<Rightarrow> Transform3 \<Rightarrow> nat
     \<Rightarrow> DistanceRequest \<Rightarrow> 'r \<Rightarrow> real \<times> 'r"

type_synonym 'r DistanceFunctionMatrix = "NODE_TYPE \<Rightarrow> NODE_TYPE \<Rightarrow> 'r routine option"

definition new_solver :: "world \<Rightarrow> nat \<times> world" where
  \<comment> \<open>\<^verbatim>\<open>new NarrowPhaseSolver()\<close>: an address that is not alive\<close>
  "new_solver w =
     (let a = Suc (fold max (live w) 0)
      in (a, w\<lparr>trace := trace w @ [New_solver a], live := a # live w\<rparr>))"

definition delete_solver :: "nat \<Rightarrow> world \<Rightarrow> world" where
  \<comment> \<open>\<^verbatim>\<open>delete nsolver\<close>\<close>
  "delete_solver a w =
     w\<lparr>trace := trace w @ [Delete_solver a], live := removeAll a (live w)\<rparr>"

definition getDistanceFunctionLookTable :: "NarrowPhaseSolver \<Rightarrow> world \<Rightarrow> world" where
  "getDistanceFunctionLookTable S w =
     (if S \<in> set (built w) then w
      else w\<lparr>trace := trace w @ [Build_table S], built := S # built w\<rparr>)"

definition warn :: "NODE_TYPE \<Rightarrow> NODE_TYPE \<Rightarrow> world \<Rightarrow> world" where
  "warn node_type1 node_type2 w = w\<lparr>trace := trace w @ [Warning node_type1 node_type2]\<rparr>"

definition invoked ::
  "NODE_TYPE \<Rightarrow> NODE_TYPE \<Rightarrow> CollisionGeometry \<Rightarrow> Transform3 \<Rightarrow> CollisionGeometry
     \<Rightarrow> Transform3 \<Rightarrow> nat \<Rightarrow> world \<Rightarrow> world" where
  "invoked r c a tfa b tfb s w = w\<lparr>trace := trace w @ [Invoke r c a tfa b tfb s]\<rparr>"

definition distance_NarrowPhaseSolver ::
  "(NarrowPhaseSolver \<Rightarrow> 'r DistanceFunctionMatrix) \<Rightarrow> ScalarT \<Rightarrow> NarrowPhaseSolver
     \<Rightarrow> CollisionGeometry \<Rightarrow> Transform3 \<Rightarrow> CollisionGeometry \<Rightarrow> Transform3
     \<Rightarrow> nat option \<Rightarrow> DistanceRequest \<Rightarrow> 'r \<Rightarrow> world \<Rightarrow> real \<times> 'r \<times> world" where
  \<comment> \<open>\<^verbatim>\<open>distance<NarrowPhaseSolver>(o1, tf1, o2, tf2, nsolver_, request, result)\<close>;
      \<open>T\<close> is \<^verbatim>\<open>NarrowPhaseSolver::Scalar\<close>, \<open>nsolver0\<close> the parameter \<^verbatim>\<open>nsolver_\<close>, \<open>None\<close> the null pointer\<close>
  "distance_NarrowPhaseSolver tables T S o1 tf1 o2 tf2 nsolver0 request result w0 =
     (let (nsolver, w1) = (case nsolver0 of None \<Rightarrow> new_solver w0 | Some p \<Rightarrow> (p, w0));
          w2 = getDistanceFunctionLookTable S w1;
          looktable = tables S;
          object_type1 = getObjectType o1;
          node_type1 = getNodeType o1;
          object_type2 = getObjectType o2;
          node_type2 = getNodeType o2;
          res = numeric_limits_max T;
          (res, result, w3) =
            (if object_type1 = OT_GEOM \<and> object_type2 = OT_BVH then
               (case looktable node_type2 node_type1 of
                  None \<Rightarrow> (res, result, warn node_type1 node_type2 w2)
                | Some f \<Rightarrow>
                    (let (r, result') = f o2 tf2 o1 tf1 nsolver request result
                     in (r, result', invoked node_type2 node_type1 o2 tf2 o1 tf1 nsolver w2)))
             else
               (case looktable node_type1 node_type2 of
                  None \<Rightarrow> (res, result, warn node_type1 node_type2 w2)
                | Some f \<Rightarrow>
                    (let (r, result') = f o1 tf1 o2 tf2 nsolver request result
                     in (r, result', invoked node_type1 node_type2 o1 tf1 o2 tf2 nsolver w2))));
          w4 = (case nsolver0 of None \<Rightarrow> delete_solver nsolver w3 | Some p \<Rightarrow> w3)
      in (res, result, w4))"

definition distance_NarrowPhaseSolver_obj ::
  "(NarrowPhaseSolver \<Rightarrow> 'r DistanceFunctionMatrix) \<Rightarrow> ScalarT \<Rightarrow> NarrowPhaseSolver
     \<Rightarrow> CollisionObject \<Rightarrow> CollisionObject
     \<Rightarrow> nat option \<Rightarrow> DistanceRequest \<Rightarrow> 'r \<Rightarrow> world \<Rightarrow> real \<times> 'r \<times> world" where
  \<comment> \<open>\<^verbatim>\<open>distance<NarrowPhaseSolver>(o1, o2, nsolver, request, result)\<close>\<close>
  "distance_NarrowPhaseSolver_obj tables T S o1 o2 nsolver request result w =
     distance_NarrowPhaseSolver tables T S
       (collisionGeometry o1) (getTransform o1) (collisionGeometry o2) (getTransform o2)
       nsolver request result w"

text \<open>
  The two entry points templated on the scalar declare the solver as a local variable and
  pass its address: the address is alive for the call only.
\<close>

definition with_local_solver :: "(nat \<Rightarrow> world \<Rightarrow> real \<times> 'r \<times> world) \<Rightarrow> world \<Rightarrow> real \<times> 'r \<times> world" where
  "with_local_solver body w =
     (let a = Suc (fold max (live w) 0);
          (res, result, w') = body a (w\<lparr>live := a # live w\<rparr>)
      in (res, result, w'\<lparr>live := removeAll a (live w')\<rparr>))"

definition distance_obj ::
  "(NarrowPhaseSolver \<Rightarrow> 'r DistanceFunctionMatrix) \<Rightarrow> ScalarT
     \<Rightarrow> CollisionObject \<Rightarrow> CollisionObject
     \<Rightarrow> DistanceRequest \<Rightarrow> 'r \<Rightarrow> world \<Rightarrow> real \<times> 'r \<times> world" where
  \<comment> \<open>\<^verbatim>\<open>distance<Scalar>(o1, o2, request, result)\<close>\<close>
  "distance_obj tables T o1 o2 request result w =
     (case gjk_solver_type request of
        GST_LIBCCD \<Rightarrow>
          with_local_solver
            (\<lambda>solver. distance_NarrowPhaseSolver_obj tables T GJKSolver_libccd o1 o2
                         (Some solver) request result) w
      | GST_INDEP \<Rightarrow>
          with_local_solver
            (\<lambda>solver. distance_NarrowPhaseSolver_obj tables T GJKSolver_indep o1 o2
                         (Some solver) request result) w
      | GST_other k \<Rightarrow> (- 1, result, w))"

definition distance_geom ::
  "(NarrowPhaseSolver \<Rightarrow> 'r DistanceFunctionMatrix) \<Rightarrow> ScalarT
     \<Rightarrow> CollisionGeometry \<Rightarrow> Transform3 \<Rightarrow> CollisionGeometry \<Rightarrow> Transform3
     \<Rightarrow> DistanceRequest \<Rightarrow> 'r \<Rightarrow> world \<Rightarrow> real \<times> 'r \<times> world" where
  \<comment> \<open>\<^verbatim>\<open>distance<Scalar>(o1, tf1, o2, tf2, request, result)\<close>\<close>
  "distance_geom tables T o1 tf1 o2 tf2 request result w =
     (case gjk_solver_type request of
        GST_LIBCCD \<Rightarrow>
          with_local_solver
            (\<lambda>solver. distance_NarrowPhaseSolver tables T GJKSolver_libccd o1 tf1 o2 tf2
                         (Some solver) request result) w
      | GST_INDEP \<Rightarrow>
          with_local_solver
            (\<lambda>solver. distance_NarrowPhaseSolver tables T GJKSolver_indep o1 tf1 o2 tf2
                         (Some solver) request result) w
      | GST_other k \<Rightarrow> (- 1, result, w))"

text \<open>Projections of a trace: the routines invoked, the warnings, and the solvers
  allocated and released.\<close>

fun is_Invoke :: "event \<Rightarrow> bool" where
  "is_Invoke (Invoke r c a tfa b tfb s) = True"
| "is_Invoke e = False"

fun is_Warning :: "event \<Rightarrow> bool" where
  "is_Warning (Warning a b) = True"
| "is_Warning e = False"

fun is_heap_event :: "event \<Rightarrow> bool" where
  "is_heap_event (New_solver a) = True"
| "is_heap_event (Delete_solver a) = True"
| "is_heap_event e = False"

fun is_Build_table :: "event \<Rightarrow> bool" where
  "is_Build_table (Build_table S) = True"
| "is_Build_table e = False"

definition invocations :: "event list \<Rightarrow> event list" where
  "invocations tr = filter is_Invoke tr"

definition warnings :: "event list \<Rightarrow> event list" where
  "warnings tr = filter is_Warning tr"

definition heap_events :: "event list \<Rightarrow> event list" where
  "heap_events tr = filter is_heap_event tr"

definition tables_built :: "event list \<Rightarrow> event list" where
  "tables_built tr = filter is_Build_table tr"

text \<open>
  The address of the solver a call runs with: the caller's, or the one allocated at
  entry. The outcome of a call for an unsupported pair, in the words of the driver's
  contract: the sentinel is returned, the result object is the caller's, one warning
  naming the two node types is added and no routine is invoked.
\<close>

definition solver_address :: "nat option \<Rightarrow> world \<Rightarrow> nat" where
  "solver_address nsolver0 w =
     (case nsolver0 of None \<Rightarrow> Suc (fold max (live w) 0) | Some p \<Rightarrow> p)"

definition unsupported_outcome ::
  "ScalarT \<Rightarrow> CollisionGeometry \<Rightarrow> CollisionGeometry \<Rightarrow> 'r \<Rightarrow> world
     \<Rightarrow> real \<times> 'r \<times> world \<Rightarrow> bool" where
  "unsupported_outcome T o1 o2 result w out =
     (case out of (res, result', w') \<Rightarrow>
        res = numeric_limits_max T \<and> result' = result
        \<and> warnings (trace w') = warnings (trace w) @ [Warning (getNodeType o1) (getNodeType o2)]
        \<and> invocations (trace w') = invocations (trace w))"

text \<open>
  Concrete inputs for the examples: two primitives and a hierarchy, a world in which
  nothing has happened, and tables whose only routine is the one of the cell of the
  hierarchy and the first primitive. The routine's distance tells the order of its
  operands, and it counts its calls in the result object.
\<close>

definition example_box :: CollisionGeometry where
  "example_box = \<lparr>getObjectType = OT_GEOM, getNodeType = 9, geometry_id = 1\<rparr>"

definition example_sphere :: CollisionGeometry where
  "example_sphere = \<lparr>getObjectType = OT_GEOM, getNodeType = 10, geometry_id = 3\<rparr>"

definition example_mesh :: CollisionGeometry where
  "example_mesh = \<lparr>getObjectType = OT_BVH, getNodeType = 2, geometry_id = 2\<rparr>"

definition example_world :: world where
  "example_world = \<lparr>trace = [], live = [], built = []\<rparr>"

definition example_routine :: "nat routine" where
  "example_routine a tfa b tfb s request result =
     (real (geometry_id a) + 10 * real (geometry_id b), Suc result)"

definition example_tables :: "NarrowPhaseSolver \<Rightarrow> nat DistanceFunctionMatrix" where
  "example_tables S r c = (if r = 2 \<and> c = 9 then Some example_routine else None)"

section \<open>Vector algebra\<close>

lemma dot_self_nonneg: "0 \<le> dot v v"
  by (simp add: dot_def)

lemma dot_self_zero_iff: "dot v v = 0 \<longleftrightarrow> v = Vec3 0 0 0"
proof
  assume h: "dot v v = 0"
  have "c0 v * c0 v + (c1 v * c1 v + c2 v * c2 v) = 0"
    using h by (simp add: dot_def)
  then have a: "c0 v * c0 v = 0" and b: "c1 v * c1 v + c2 v * c2 v = 0"
    by (simp_all add: add_nonneg_eq_0_iff)
  from b have "c1 v * c1 v = 0" and "c2 v * c2 v = 0"
    by (simp_all add: add_nonneg_eq_0_iff)
  with a show "v = Vec3 0 0 0"
    by (cases v) simp
next
  assume "v = Vec3 0 0 0"
  then show "dot v v = 0"
    by (simp add: dot_def)
qed

lemma norm3_nonneg: "0 \<le> norm3 v"
  by (simp add: norm3_def dot_self_nonneg)

lemma norm3_zero_iff: "norm3 v = 0 \<longleftrightarrow> v = Vec3 0 0 0"
  by (simp add: norm3_def dot_self_zero_iff)

lemma norm3_pos_iff: "0 < norm3 v \<longleftrightarrow> v \<noteq> Vec3 0 0 0"
  using norm3_nonneg [of v] norm3_zero_iff [of v] by linarith

lemma norm3_sq: "norm3 v * norm3 v = dot v v"
  by (simp add: norm3_def dot_self_nonneg)

lemma dot_scale_left: "dot (scale u s) v = s * dot u v"
  by (simp add: dot_def scale_def algebra_simps)

lemma dot_scale_right: "dot u (scale v s) = s * dot u v"
  by (simp add: dot_def scale_def algebra_simps)

lemma norm3_scale_inv:
  assumes "v \<noteq> Vec3 0 0 0"
  shows "norm3 (scale v (1 / norm3 v)) = 1"
proof -
  have pos: "0 < norm3 v"
    using assms by (simp add: norm3_pos_iff)
  have "dot (scale v (1 / norm3 v)) (scale v (1 / norm3 v))
        = (1 / norm3 v) * ((1 / norm3 v) * dot v v)"
    by (simp add: dot_scale_left dot_scale_right)
  also have "\<dots> = (1 / norm3 v) * ((1 / norm3 v) * (norm3 v * norm3 v))"
    by (simp add: norm3_sq)
  also have "\<dots> = 1"
    using pos by simp
  finally show ?thesis
    by (simp add: norm3_def)
qed

lemma scale_one: "scale v 1 = v"
  by (cases v) (simp add: scale_def)

lemma unitNormalTest_unit: "unit_normal h \<Longrightarrow> unitNormalTest h = h"
  by (cases h) (simp add: unitNormalTest_def unit_normal_def scale_one)

lemma mat_vec_dot_expand:
  "dot (mat_vec R u) (mat_vec R v) =
     c0 u * c0 v * dot (col R 0) (col R 0) + c1 u * c1 v * dot (col R 1) (col R 1)
     + c2 u * c2 v * dot (col R 2) (col R 2)
     + (c0 u * c1 v + c1 u * c0 v) * dot (col R 0) (col R 1)
     + (c0 u * c2 v + c2 u * c0 v) * dot (col R 0) (col R 2)
     + (c1 u * c2 v + c2 u * c1 v) * dot (col R 1) (col R 2)"
  by (simp add: dot_def mat_vec_def col_def algebra_simps)

lemma orthonormal_dot: "orthonormal R \<Longrightarrow> dot (mat_vec R u) (mat_vec R v) = dot u v"
  unfolding orthonormal_def
  by (simp add: mat_vec_dot_expand) (simp add: dot_def)

lemma orthonormal_norm3: "orthonormal R \<Longrightarrow> norm3 (mat_vec R u) = norm3 u"
  by (simp add: norm3_def orthonormal_dot)

lemma mat_vec_mat_mul: "mat_vec (mat_mul A B) v = mat_vec A (mat_vec B v)"
  by (simp add: mat_vec_def mat_mul_def dot_def col_def algebra_simps)

lemma dot_add3_right: "dot u (add3 v w) = dot u v + dot u w"
  by (simp add: dot_def add3_def algebra_simps)

lemma transform_unit:
  assumes "unit_normal h" "rigid tf"
  shows "transform h tf =
     Halfspace_raw (mat_vec (linear tf) (n_of h))
                   (d_of h + dot (mat_vec (linear tf) (n_of h)) (translation tf))"
proof -
  have "norm3 (mat_vec (linear tf) (n_of h)) = 1"
    using assms by (simp add: rigid_def unit_normal_def orthonormal_norm3)
  then show ?thesis
    by (simp add: transform_def Halfspace_nd_def unitNormalTest_def scale_one Let_def)
qed

lemma transform_unit_normal:
  assumes "unit_normal h" "rigid tf"
  shows "unit_normal (transform h tf)"
  using assms by (simp add: transform_unit) (simp add: unit_normal_def rigid_def orthonormal_norm3)

lemma rigid_Identity: "rigid Identity"
  by (simp add: rigid_def orthonormal_def Identity_def col_def dot_def)

lemma mat_vec_Identity: "mat_vec (linear Identity) v = v"
  by (cases v) (simp add: Identity_def mat_vec_def dot_def)

text \<open>
  The transformed half-space is the image of the half-space under the point map
  \<open>x \<mapsto> R x + T\<close>, and \<open>compose\<close> is the composition of the point maps.
\<close>

lemma apply_tf_compose: "apply_tf (compose T2 T1) p = apply_tf T2 (apply_tf T1 p)"
  by (simp add: apply_tf_def compose_def mat_vec_mat_mul)
     (simp add: add3_def mat_vec_def dot_def algebra_simps)

lemma in_halfspace_transform:
  assumes "unit_normal h" and "rigid tf"
  shows "in_halfspace (transform h tf) (apply_tf tf p) \<longleftrightarrow> in_halfspace h p"
  using assms
  by (simp add: transform_unit in_halfspace_def apply_tf_def dot_add3_right rigid_def
        orthonormal_dot)

section \<open>The half-space in exact arithmetic\<close>

text \<open>
  Both constructors that take a normal run \<^verbatim>\<open>unitNormalTest\<close>. In exact arithmetic,
  coefficients \<open>(a, b, c)\<close> of length \<open>L \<noteq> 0\<close> give \<open>n = (a, b, c) / L\<close>, \<open>d / L\<close>
  with \<open>n\<close> of length one, and the zero vector gives \<open>n = (1, 0, 0)\<close>, \<open>d = 0\<close>. The
  program computes \<open>L\<close> as the rounded square root of the rounded sum of the rounded
  squares: for coefficients whose squares exceed the largest finite scalar the length
  is infinite, its inverse is zero and the normal built is the zero vector; for
  nonzero coefficients whose squares round to zero the length is zero and the default
  is substituted. Neither is a value of this model.
\<close>

lemma constructor_normalization:
  "Halfspace_abcd a b c d =
     (if norm3 (Vec3 a b c) = 0 then Halfspace_raw (Vec3 1 0 0) 0
      else Halfspace_raw (Vec3 (a / norm3 (Vec3 a b c)) (b / norm3 (Vec3 a b c))
                               (c / norm3 (Vec3 a b c)))
                         (d / norm3 (Vec3 a b c)))
   \<and> Halfspace_nd (Vec3 a b c) d = Halfspace_abcd a b c d
   \<and> norm3 (n_of (Halfspace_abcd a b c d)) = 1
   \<and> (norm3 (Vec3 a b c) = 0 \<longleftrightarrow> a = 0 \<and> b = 0 \<and> c = 0)"
proof -
  have nn: "0 \<le> norm3 (Vec3 a b c)"
    by (rule norm3_nonneg)
  have shape: "Halfspace_abcd a b c d =
     (if norm3 (Vec3 a b c) = 0 then Halfspace_raw (Vec3 1 0 0) 0
      else Halfspace_raw (Vec3 (a / norm3 (Vec3 a b c)) (b / norm3 (Vec3 a b c))
                               (c / norm3 (Vec3 a b c)))
                         (d / norm3 (Vec3 a b c)))"
    using nn by (simp add: Halfspace_abcd_def unitNormalTest_def Let_def scale_def)
  have same: "Halfspace_nd (Vec3 a b c) d = Halfspace_abcd a b c d"
    by (simp add: Halfspace_nd_def Halfspace_abcd_def)
  have unit: "norm3 (n_of (Halfspace_abcd a b c d)) = 1"
  proof (cases "Vec3 a b c = Vec3 0 0 0")
    case True
    then show ?thesis
      by (simp add: Halfspace_abcd_def unitNormalTest_def norm3_def dot_def)
  next
    case False
    then have "0 < norm3 (Vec3 a b c)"
      by (simp add: norm3_pos_iff)
    then show ?thesis
      using norm3_scale_inv [OF False]
      by (simp add: Halfspace_abcd_def unitNormalTest_def Let_def)
  qed
  have zero: "norm3 (Vec3 a b c) = 0 \<longleftrightarrow> a = 0 \<and> b = 0 \<and> c = 0"
    by (simp add: norm3_zero_iff)
  show ?thesis
    using shape same unit zero by simp
qed

lemma constructor_example:
  "Halfspace_abcd 3 4 0 10 = Halfspace_raw (Vec3 (3 / 5) (4 / 5) 0) 2"
proof -
  have "sqrt 25 = sqrt (5 * 5)"
    by simp
  then have "sqrt 25 = 5"
    by (simp only: real_sqrt_mult_self) simp
  then show ?thesis
    by (simp add: Halfspace_abcd_def unitNormalTest_def norm3_def dot_def scale_def Let_def)
qed

text \<open>
  In exact arithmetic \<^verbatim>\<open>signedDistance(p)\<close> is \<open>n \<cdot> p - d\<close> and \<^verbatim>\<open>distance(p)\<close> is
  its absolute value; the signed distance is positive exactly outside the half-space,
  negative exactly inside and zero exactly on the plane. The program rounds the
  products, the sums and the difference.
\<close>

lemma point_queries:
  "signedDistance h p = c0 (n_of h) * c0 p + c1 (n_of h) * c1 p + c2 (n_of h) * c2 p - d_of h
   \<and> distance_to h p = \<bar>signedDistance h p\<bar>
   \<and> 0 \<le> distance_to h p
   \<and> (outside_open h p \<longleftrightarrow> 0 < signedDistance h p)
   \<and> (inside_open h p \<longleftrightarrow> signedDistance h p < 0)
   \<and> (on_plane h p \<longleftrightarrow> signedDistance h p = 0)"
  by (simp add: signedDistance_def distance_to_def outside_open_def inside_open_def
        on_plane_def dot_def)

text \<open>
  In exact arithmetic, for a half-space with a unit normal and rigid transforms \<open>T1\<close>,
  \<open>T2\<close>: the identity transform leaves the half-space as it is, transforming by \<open>T1\<close>
  and then by \<open>T2\<close> is transforming by \<open>compose T2 T1\<close>, and the transformed
  half-space is \<open>n' = R n\<close>, \<open>d' = d + n' \<cdot> T\<close>. The program rounds every
  operation and normalises the rotated normal again.
\<close>

lemma transform_algebra:
  assumes "unit_normal h" "rigid T1" "rigid T2"
  shows "transform h Identity = h
       \<and> transform (transform h T1) T2 = transform h (compose T2 T1)
       \<and> n_of (transform h T1) = mat_vec (linear T1) (n_of h)
       \<and> d_of (transform h T1) = d_of h + dot (n_of (transform h T1)) (translation T1)"
proof -
  have a: "transform h Identity = h"
    using assms(1)
    by (cases h) (simp add: transform_unit rigid_Identity mat_vec_Identity,
                  simp add: Identity_def dot_def)
  have u1: "unit_normal (transform h T1)"
    using assms by (simp add: transform_unit_normal)
  have lhs: "transform (transform h T1) T2 =
      Halfspace_raw (mat_vec (linear T2) (mat_vec (linear T1) (n_of h)))
        (d_of h + dot (mat_vec (linear T1) (n_of h)) (translation T1)
          + dot (mat_vec (linear T2) (mat_vec (linear T1) (n_of h))) (translation T2))"
    using assms u1 by (simp add: transform_unit [OF u1 assms(3)]) (simp add: transform_unit)
  have nrm: "norm3 (mat_vec (linear T2) (mat_vec (linear T1) (n_of h))) = 1"
    using assms by (simp add: rigid_def unit_normal_def orthonormal_norm3)
  have rhs: "transform h (compose T2 T1) =
      Halfspace_raw (mat_vec (linear T2) (mat_vec (linear T1) (n_of h)))
        (d_of h + dot (mat_vec (linear T2) (mat_vec (linear T1) (n_of h)))
                      (add3 (mat_vec (linear T2) (translation T1)) (translation T2)))"
    using nrm
    by (simp add: transform_def compose_def mat_vec_mat_mul Halfspace_nd_def
          unitNormalTest_def scale_one Let_def)
  have b: "transform (transform h T1) T2 = transform h (compose T2 T1)"
    using assms(3) by (simp add: lhs rhs dot_add3_right rigid_def orthonormal_dot)
  show ?thesis
    using a b assms by (simp add: transform_unit)
qed

lemma transform_algebra_example:
  "unit_normal (Halfspace_abcd 2 0 0 10)
   \<and> rigid (Transform3 (Mat3 (Vec3 0 (-1) 0) (Vec3 1 0 0) (Vec3 0 0 1)) (Vec3 1 2 3))
   \<and> rigid (Transform3 (Mat3 (Vec3 1 0 0) (Vec3 0 0 (-1)) (Vec3 0 1 0)) (Vec3 4 5 6))
   \<and> transform (Halfspace_abcd 2 0 0 10) Identity = Halfspace_abcd 2 0 0 10
   \<and> transform (transform (Halfspace_abcd 2 0 0 10)
         (Transform3 (Mat3 (Vec3 0 (-1) 0) (Vec3 1 0 0) (Vec3 0 0 1)) (Vec3 1 2 3)))
         (Transform3 (Mat3 (Vec3 1 0 0) (Vec3 0 0 (-1)) (Vec3 0 1 0)) (Vec3 4 5 6))
     = transform (Halfspace_abcd 2 0 0 10)
         (compose (Transform3 (Mat3 (Vec3 1 0 0) (Vec3 0 0 (-1)) (Vec3 0 1 0)) (Vec3 4 5 6))
                  (Transform3 (Mat3 (Vec3 0 (-1) 0) (Vec3 1 0 0) (Vec3 0 0 1)) (Vec3 1 2 3)))
   \<and> n_of (transform (Halfspace_abcd 2 0 0 10)
         (Transform3 (Mat3 (Vec3 0 (-1) 0) (Vec3 1 0 0) (Vec3 0 0 1)) (Vec3 1 2 3))) = Vec3 0 1 0
   \<and> d_of (transform (Halfspace_abcd 2 0 0 10)
         (Transform3 (Mat3 (Vec3 0 (-1) 0) (Vec3 1 0 0) (Vec3 0 0 1)) (Vec3 1 2 3))) = 7"
proof -
  have h: "Halfspace_abcd 2 0 0 10 = Halfspace_raw (Vec3 1 0 0) 5"
    by (simp add: Halfspace_abcd_def unitNormalTest_def norm3_def dot_def scale_def Let_def)
  have u: "unit_normal (Halfspace_abcd 2 0 0 10)"
    by (simp add: h unit_normal_def norm3_def dot_def)
  have r1: "rigid (Transform3 (Mat3 (Vec3 0 (-1) 0) (Vec3 1 0 0) (Vec3 0 0 1)) (Vec3 1 2 3))"
    by (simp add: rigid_def orthonormal_def col_def dot_def)
  have r2: "rigid (Transform3 (Mat3 (Vec3 1 0 0) (Vec3 0 0 (-1)) (Vec3 0 1 0)) (Vec3 4 5 6))"
    by (simp add: rigid_def orthonormal_def col_def dot_def)
  show ?thesis
    using transform_algebra [OF u r1 r2] u r1 r2
    by (simp add: h mat_vec_def dot_def)
qed

section \<open>The axis-aligned box of a half-space\<close>

lemma coeff_simps [simp]:
  "coeff v 0 = c0 v" "coeff v (Suc 0) = c1 v" "coeff v 1 = c1 v" "coeff v 2 = c2 v"
  by (simp_all add: coeff_def)

lemma transform_Identity: "unit_normal h \<Longrightarrow> transform h Identity = h"
  by (cases h) (simp add: transform_unit rigid_Identity mat_vec_Identity,
                simp add: Identity_def dot_def)

text \<open>
  C2. The axis-aligned box fit transforms the half-space and fits the box to the
  transformed normal \<open>n = (a, b, c)\<close> and offset \<open>e\<close>, whatever they are. It starts
  from the universal box, every coordinate at plus or minus the largest finite value
  \<open>M\<close>. When exactly two components of \<open>n\<close> are zero, one face of the axis of
  the third component is set: the maximum of that axis to \<open>e\<close> when the component is
  positive, the minimum of that axis to \<open>- e\<close> when it is negative, and the other five
  faces stay universal. In every other case all six faces are universal. The tests
  are comparisons with zero and the value written is \<open>e\<close> or its negation, which are
  exact on the scalars of the program.

  Three half-spaces on which every operation of the transform is exact: the normal
  \<open>(1, 0, 0)\<close> with offset \<open>5\<close> under the identity has \<open>max.x = 5\<close>; the
  coefficients \<open>(0, 0, -2)\<close> with offset \<open>6\<close> (normalised to \<open>(0, 0, -1)\<close>, \<open>3\<close>)
  under the identity have \<open>min.z = -3\<close>; and the normal \<open>(1, 0, 0)\<close> with offset \<open>5\<close>
  under the quarter turn about the z axis followed by the translation \<open>(1, 2, 3)\<close>
  has \<open>max.y = 7\<close>; every other face is universal.
\<close>

theorem computeBV_AABB_rule:
  "computeBV_AABB s tf = fit_AABB (transform s tf)
   \<and> fit_AABB (Halfspace_raw (Vec3 a b c) e) =
      (if b = 0 \<and> c = 0 \<and> 0 < a then
         AABB (Vec3 (- FCL_REAL_max) (- FCL_REAL_max) (- FCL_REAL_max))
              (Vec3 e FCL_REAL_max FCL_REAL_max)
       else if b = 0 \<and> c = 0 \<and> a < 0 then
         AABB (Vec3 (- e) (- FCL_REAL_max) (- FCL_REAL_max))
              (Vec3 FCL_REAL_max FCL_REAL_max FCL_REAL_max)
       else if a = 0 \<and> c = 0 \<and> 0 < b then
         AABB (Vec3 (- FCL_REAL_max) (- FCL_REAL_max) (- FCL_REAL_max))
              (Vec3 FCL_REAL_max e FCL_REAL_max)
       else if a = 0 \<and> c = 0 \<and> b < 0 then
         AABB (Vec3 (- FCL_REAL_max) (- e) (- FCL_REAL_max))
              (Vec3 FCL_REAL_max FCL_REAL_max FCL_REAL_max)
       else if a = 0 \<and> b = 0 \<and> 0 < c then
         AABB (Vec3 (- FCL_REAL_max) (- FCL_REAL_max) (- FCL_REAL_max))
              (Vec3 FCL_REAL_max FCL_REAL_max e)
       else if a = 0 \<and> b = 0 \<and> c < 0 then
         AABB (Vec3 (- FCL_REAL_max) (- FCL_REAL_max) (- e))
              (Vec3 FCL_REAL_max FCL_REAL_max FCL_REAL_max)
       else
         AABB (Vec3 (- FCL_REAL_max) (- FCL_REAL_max) (- FCL_REAL_max))
              (Vec3 FCL_REAL_max FCL_REAL_max FCL_REAL_max))
   \<and> (zero_components (Vec3 a b c) = 2 \<longleftrightarrow>
        (b = 0 \<and> c = 0 \<and> (0 < a \<or> a < 0)) \<or> (a = 0 \<and> c = 0 \<and> (0 < b \<or> b < 0))
        \<or> (a = 0 \<and> b = 0 \<and> (0 < c \<or> c < 0)))
   \<and> computeBV_AABB (Halfspace_nd (Vec3 1 0 0) 5) Identity
       = AABB (Vec3 (- FCL_REAL_max) (- FCL_REAL_max) (- FCL_REAL_max))
              (Vec3 5 FCL_REAL_max FCL_REAL_max)
   \<and> computeBV_AABB (Halfspace_abcd 0 0 (- 2) 6) Identity
       = AABB (Vec3 (- FCL_REAL_max) (- FCL_REAL_max) (- 3))
              (Vec3 FCL_REAL_max FCL_REAL_max FCL_REAL_max)
   \<and> computeBV_AABB (Halfspace_nd (Vec3 1 0 0) 5)
         (Transform3 (Mat3 (Vec3 0 (- 1) 0) (Vec3 1 0 0) (Vec3 0 0 1)) (Vec3 1 2 3))
       = AABB (Vec3 (- FCL_REAL_max) (- FCL_REAL_max) (- FCL_REAL_max))
              (Vec3 FCL_REAL_max 7 FCL_REAL_max)"
proof -
  have split: "computeBV_AABB s tf = fit_AABB (transform s tf)"
    by (simp add: computeBV_AABB_def)
  have rule: "fit_AABB (Halfspace_raw (Vec3 a b c) e) =
      (if b = 0 \<and> c = 0 \<and> 0 < a then
         AABB (Vec3 (- FCL_REAL_max) (- FCL_REAL_max) (- FCL_REAL_max))
              (Vec3 e FCL_REAL_max FCL_REAL_max)
       else if b = 0 \<and> c = 0 \<and> a < 0 then
         AABB (Vec3 (- e) (- FCL_REAL_max) (- FCL_REAL_max))
              (Vec3 FCL_REAL_max FCL_REAL_max FCL_REAL_max)
       else if a = 0 \<and> c = 0 \<and> 0 < b then
         AABB (Vec3 (- FCL_REAL_max) (- FCL_REAL_max) (- FCL_REAL_max))
              (Vec3 FCL_REAL_max e FCL_REAL_max)
       else if a = 0 \<and> c = 0 \<and> b < 0 then
         AABB (Vec3 (- FCL_REAL_max) (- e) (- FCL_REAL_max))
              (Vec3 FCL_REAL_max FCL_REAL_max FCL_REAL_max)
       else if a = 0 \<and> b = 0 \<and> 0 < c then
         AABB (Vec3 (- FCL_REAL_max) (- FCL_REAL_max) (- FCL_REAL_max))
              (Vec3 FCL_REAL_max FCL_REAL_max e)
       else if a = 0 \<and> b = 0 \<and> c < 0 then
         AABB (Vec3 (- FCL_REAL_max) (- FCL_REAL_max) (- e))
              (Vec3 FCL_REAL_max FCL_REAL_max FCL_REAL_max)
       else
         AABB (Vec3 (- FCL_REAL_max) (- FCL_REAL_max) (- FCL_REAL_max))
              (Vec3 FCL_REAL_max FCL_REAL_max FCL_REAL_max))"
    by (auto simp add: fit_AABB_def Let_def set_min_def set_max_def set_coeff_def Constant_def)
  have count: "zero_components (Vec3 a b c) = 2 \<longleftrightarrow>
        (b = 0 \<and> c = 0 \<and> (0 < a \<or> a < 0)) \<or> (a = 0 \<and> c = 0 \<and> (0 < b \<or> b < 0))
        \<or> (a = 0 \<and> b = 0 \<and> (0 < c \<or> c < 0))"
    by (auto simp add: zero_components_def)
  have h1: "transform (Halfspace_nd (Vec3 1 0 0) 5) Identity = Halfspace_raw (Vec3 1 0 0) 5"
    by (simp add: transform_def Halfspace_nd_def unitNormalTest_def norm3_def dot_def
          scale_def mat_vec_def Identity_def Let_def)
  have ex1: "computeBV_AABB (Halfspace_nd (Vec3 1 0 0) 5) Identity
       = AABB (Vec3 (- FCL_REAL_max) (- FCL_REAL_max) (- FCL_REAL_max))
              (Vec3 5 FCL_REAL_max FCL_REAL_max)"
    by (simp add: computeBV_AABB_def h1 fit_AABB_def Let_def set_max_def set_coeff_def
          Constant_def)
  have h2: "transform (Halfspace_abcd 0 0 (- 2) 6) Identity = Halfspace_raw (Vec3 0 0 (- 1)) 3"
    by (simp add: transform_def Halfspace_nd_def Halfspace_abcd_def unitNormalTest_def
          norm3_def dot_def scale_def mat_vec_def Identity_def Let_def)
  have ex2: "computeBV_AABB (Halfspace_abcd 0 0 (- 2) 6) Identity
       = AABB (Vec3 (- FCL_REAL_max) (- FCL_REAL_max) (- 3))
              (Vec3 FCL_REAL_max FCL_REAL_max FCL_REAL_max)"
    by (simp add: computeBV_AABB_def h2 fit_AABB_def Let_def set_min_def set_coeff_def
          Constant_def)
  have h3: "transform (Halfspace_nd (Vec3 1 0 0) 5)
         (Transform3 (Mat3 (Vec3 0 (- 1) 0) (Vec3 1 0 0) (Vec3 0 0 1)) (Vec3 1 2 3))
       = Halfspace_raw (Vec3 0 1 0) 7"
    by (simp add: transform_def Halfspace_nd_def unitNormalTest_def norm3_def dot_def
          scale_def mat_vec_def Let_def)
  have ex3: "computeBV_AABB (Halfspace_nd (Vec3 1 0 0) 5)
         (Transform3 (Mat3 (Vec3 0 (- 1) 0) (Vec3 1 0 0) (Vec3 0 0 1)) (Vec3 1 2 3))
       = AABB (Vec3 (- FCL_REAL_max) (- FCL_REAL_max) (- FCL_REAL_max))
              (Vec3 FCL_REAL_max 7 FCL_REAL_max)"
    by (simp add: computeBV_AABB_def h3 fit_AABB_def Let_def set_max_def set_coeff_def
          Constant_def)
  show ?thesis
    using split rule count ex1 ex2 ex3 by simp
qed

section \<open>The k-direction polytopes of a half-space\<close>

lemma fold_update_length: "length (fold (\<lambda>i b. b[i := a]) js xs) = length xs"
  by (induction js arbitrary: xs) simp_all

lemma fold_update_nth:
  "j < length xs \<Longrightarrow> fold (\<lambda>i b. b[i := a]) js xs ! j = (if j \<in> set js then a else xs ! j)"
proof (induction js arbitrary: xs)
  case Nil
  then show ?case by simp
next
  case (Cons k js)
  then show ?case
    by (cases "j = k") (simp_all add: fold_update_length)
qed

text \<open>The two loops overwrite every entry of a polytope with \<open>2 D\<close> entries.\<close>

lemma kdop_reset_universal:
  assumes "length bv = 2 * D"
  shows "kdop_reset D bv = kdop_universal D"
proof (rule nth_equalityI)
  show "length (kdop_reset D bv) = length (kdop_universal D)"
    using assms by (simp add: kdop_reset_def kdop_universal_def fold_update_length)
next
  fix j
  assume "j < length (kdop_reset D bv)"
  then have j: "j < 2 * D"
    using assms by (simp add: kdop_reset_def fold_update_length)
  show "kdop_reset D bv ! j = kdop_universal D ! j"
    using j assms
    by (auto simp add: kdop_reset_def kdop_universal_def fold_update_nth fold_update_length
          nth_append)
qed

text \<open>The fitters at half-spaces whose normal lies on a diagonal, under the identity transform.\<close>

lemma hs_101:
  "Halfspace_abcd 1 0 1 e = Halfspace_raw (Vec3 (1 / sqrt 2) 0 (1 / sqrt 2)) (e / sqrt 2)"
  by (simp add: Halfspace_abcd_def unitNormalTest_def norm3_def dot_def scale_def Let_def)

lemma hs_neg101:
  "Halfspace_abcd (- 1) 0 (- 1) e
     = Halfspace_raw (Vec3 (- (1 / sqrt 2)) 0 (- (1 / sqrt 2))) (e / sqrt 2)"
  by (simp add: Halfspace_abcd_def unitNormalTest_def norm3_def dot_def scale_def Let_def)

lemma hs_110:
  "Halfspace_abcd 1 1 0 e = Halfspace_raw (Vec3 (1 / sqrt 2) (1 / sqrt 2) 0) (e / sqrt 2)"
  by (simp add: Halfspace_abcd_def unitNormalTest_def norm3_def dot_def scale_def Let_def)

lemma hs_neg110:
  "Halfspace_abcd (- 1) (- 1) 0 e
     = Halfspace_raw (Vec3 (- (1 / sqrt 2)) (- (1 / sqrt 2)) 0) (e / sqrt 2)"
  by (simp add: Halfspace_abcd_def unitNormalTest_def norm3_def dot_def scale_def Let_def)

lemma unit_diag:
  "unit_normal (Halfspace_raw (Vec3 (1 / sqrt 2) 0 (1 / sqrt 2)) e)"
  "unit_normal (Halfspace_raw (Vec3 (- (1 / sqrt 2)) 0 (- (1 / sqrt 2))) e)"
  "unit_normal (Halfspace_raw (Vec3 (1 / sqrt 2) (1 / sqrt 2) 0) e)"
  "unit_normal (Halfspace_raw (Vec3 (- (1 / sqrt 2)) (- (1 / sqrt 2)) 0) e)"
  by (simp_all add: unit_normal_def norm3_def dot_def)

lemma kdop16_101:
  "length bv = 16 \<Longrightarrow>
   computeBV_KDOP16 (Halfspace_abcd 1 0 1 e) Identity bv = (kdop_universal 8)[4 := e]"
  by (simp add: computeBV_KDOP16_def hs_101 transform_Identity unit_diag Let_def
        kdop_reset_universal)

lemma kdop18_101:
  "length bv = 18 \<Longrightarrow>
   computeBV_KDOP18 (Halfspace_abcd 1 0 1 e) Identity bv = (kdop_universal 9)[4 := e]"
  by (simp add: computeBV_KDOP18_def hs_101 transform_Identity unit_diag Let_def
        kdop_reset_universal)

lemma kdop24_101:
  "length bv = 24 \<Longrightarrow>
   computeBV_KDOP24 (Halfspace_abcd 1 0 1 e) Identity bv = (kdop_universal 12)[4 := e]"
  by (simp add: computeBV_KDOP24_def hs_101 transform_Identity unit_diag Let_def
        kdop_reset_universal)

lemma kdop16_neg101:
  "length bv = 16 \<Longrightarrow>
   computeBV_KDOP16 (Halfspace_abcd (- 1) 0 (- 1) e) Identity bv = (kdop_universal 8)[4 := - e]"
  by (simp add: computeBV_KDOP16_def hs_neg101 transform_Identity unit_diag Let_def
        kdop_reset_universal)

lemma kdop16_110:
  "length bv = 16 \<Longrightarrow>
   computeBV_KDOP16 (Halfspace_abcd 1 1 0 e) Identity bv = (kdop_universal 8)[11 := e]"
  by (simp add: computeBV_KDOP16_def hs_110 transform_Identity unit_diag Let_def
        kdop_reset_universal)

lemma kdop16_neg110:
  "length bv = 16 \<Longrightarrow>
   computeBV_KDOP16 (Halfspace_abcd (- 1) (- 1) 0 e) Identity bv = (kdop_universal 8)[3 := - e]"
  by (simp add: computeBV_KDOP16_def hs_neg110 transform_Identity unit_diag Let_def
        kdop_reset_universal)

lemma universal_nth_lower: "i < D \<Longrightarrow> (kdop_universal D)[i := e] ! i = e"
  by (simp add: kdop_universal_def)

lemma KDOP_inside_nth:
  "KDOP_inside dirs D bv p \<Longrightarrow> i < D \<Longrightarrow> bv ! i \<le> dot (dirs i) p"
  by (simp add: KDOP_inside_def list_all_iff)

lemma dot_origin: "dot v (Vec3 0 0 0) = 0"
  by (simp add: dot_def)

text \<open>
  Whatever the half-space and the transform, a fit leaves the polytope universal or
  writes one entry of the universal polytope.
\<close>

lemma computeBV_KDOP16_one_entry:
  assumes "length bv = 16"
  shows "computeBV_KDOP16 s tf bv = kdop_universal 8
       \<or> (\<exists>i v. i < 16 \<and> computeBV_KDOP16 s tf bv = (kdop_universal 8)[i := v])"
proof -
  have r: "kdop_reset 8 bv = kdop_universal 8"
    using assms by (simp add: kdop_reset_universal)
  have "\<exists>i v. i < 16 \<and> (kdop_universal 8)[j := e] = (kdop_universal 8)[i := v]"
    if "j < 16" for j :: nat and e
    using that by blast
  then show ?thesis
    unfolding computeBV_KDOP16_def Let_def r
    by (simp split: if_splits)
qed

lemma computeBV_KDOP18_one_entry:
  assumes "length bv = 18"
  shows "computeBV_KDOP18 s tf bv = kdop_universal 9
       \<or> (\<exists>i v. i < 18 \<and> computeBV_KDOP18 s tf bv = (kdop_universal 9)[i := v])"
proof -
  have r: "kdop_reset 9 bv = kdop_universal 9"
    using assms by (simp add: kdop_reset_universal)
  have "\<exists>i v. i < 18 \<and> (kdop_universal 9)[j := e] = (kdop_universal 9)[i := v]"
    if "j < 18" for j :: nat and e
    using that by blast
  then show ?thesis
    unfolding computeBV_KDOP18_def Let_def r
    by (simp split: if_splits)
qed

lemma computeBV_KDOP24_one_entry:
  assumes "length bv = 24"
  shows "computeBV_KDOP24 s tf bv = kdop_universal 12
       \<or> (\<exists>i v. i < 24 \<and> computeBV_KDOP24 s tf bv = (kdop_universal 12)[i := v])"
proof -
  have r: "kdop_reset 12 bv = kdop_universal 12"
    using assms by (simp add: kdop_reset_universal)
  have "\<exists>i v. i < 24 \<and> (kdop_universal 12)[j := e] = (kdop_universal 12)[i := v]"
    if "j < 24" for j :: nat and e
    using that by blast
  then show ?thesis
    unfolding computeBV_KDOP24_def Let_def r
    by (simp split: if_splits)
qed

text \<open>
  C3. The rule says that the first matching direction sets the one entry whose sign
  agrees with the normal. For the diagonal \<open>(1, 1, 0)\<close> the fitters do so: the normal
  \<open>(1, 1, 0) / \<surd>2\<close> with \<open>d = 3\<close> sets the upper entry \<open>D + 3\<close> (to
  \<open>n[0] * d * 2 = 3\<close>, the only finite entry of the sixteen) and the opposite normal
  sets the lower entry \<open>3\<close>. For the diagonal \<open>(1, 0, 1)\<close> the branch tests \<open>n[1]\<close>,
  which is zero there, in place of \<open>n[0]\<close>: the normal \<open>(-1, 0, -1) / \<surd>2\<close> and the
  normal \<open>(1, 0, 1) / \<surd>2\<close> both set the lower entry \<open>4\<close>, and the upper entry
  \<open>D + 4\<close> is never written, in each of the three polytopes.
\<close>

theorem KDOP_xz_diagonal_entry:
  "computeBV_KDOP16 (Halfspace_abcd 1 1 0 3) Identity (replicate 16 0) = (kdop_universal 8)[8 + 3 := 3]
   \<and> computeBV_KDOP16 (Halfspace_abcd (- 1) (- 1) 0 3) Identity (replicate 16 0) = (kdop_universal 8)[3 := - 3]
   \<and> computeBV_KDOP16 (Halfspace_abcd (- 1) 0 (- 1) 3) Identity (replicate 16 0) = (kdop_universal 8)[4 := - 3]
   \<and> computeBV_KDOP16 (Halfspace_abcd 1 0 1 3) Identity (replicate 16 0) = (kdop_universal 8)[4 := 3]
   \<and> computeBV_KDOP18 (Halfspace_abcd 1 0 1 3) Identity (replicate 18 0) = (kdop_universal 9)[4 := 3]
   \<and> computeBV_KDOP24 (Halfspace_abcd 1 0 1 3) Identity (replicate 24 0) = (kdop_universal 12)[4 := 3]"
  by (simp add: kdop16_101 kdop18_101 kdop24_101 kdop16_neg101 kdop16_110 kdop16_neg110)

text \<open>
  C1. The bound of a half-space must contain every point of the transformed half-space.
  The half-space built from the coefficients \<open>(1, 0, 1, 1)\<close> contains the origin. Its
  polytope fits under the identity transform have the finite lower entry \<open>4\<close> equal to
  \<open>1\<close>, so whatever the directions of the polytope are, the origin (whose support
  distance along every direction is \<open>0\<close>) is not inside the fitted polytope, for
  \<^verbatim>\<open>KDOP<16>\<close>, \<^verbatim>\<open>KDOP<18>\<close> and \<^verbatim>\<open>KDOP<24>\<close> alike.
\<close>

theorem KDOP_fit_misses_origin:
  "in_halfspace (transform (Halfspace_abcd 1 0 1 1) Identity) (Vec3 0 0 0)
   \<and> \<not> KDOP_inside dirs 8
         (computeBV_KDOP16 (Halfspace_abcd 1 0 1 1) Identity (replicate 16 0)) (Vec3 0 0 0)
   \<and> \<not> KDOP_inside dirs 9
         (computeBV_KDOP18 (Halfspace_abcd 1 0 1 1) Identity (replicate 18 0)) (Vec3 0 0 0)
   \<and> \<not> KDOP_inside dirs 12
         (computeBV_KDOP24 (Halfspace_abcd 1 0 1 1) Identity (replicate 24 0)) (Vec3 0 0 0)"
proof -
  have a: "in_halfspace (transform (Halfspace_abcd 1 0 1 1) Identity) (Vec3 0 0 0)"
    by (simp add: hs_101 transform_Identity unit_diag in_halfspace_def dot_origin)
  have b: "\<not> KDOP_inside dirs 8
         (computeBV_KDOP16 (Halfspace_abcd 1 0 1 1) Identity (replicate 16 0)) (Vec3 0 0 0)"
    using KDOP_inside_nth [of dirs 8 "(kdop_universal 8)[4 := 1]" "Vec3 0 0 0" 4]
    by (auto simp add: kdop16_101 universal_nth_lower dot_origin)
  have c: "\<not> KDOP_inside dirs 9
         (computeBV_KDOP18 (Halfspace_abcd 1 0 1 1) Identity (replicate 18 0)) (Vec3 0 0 0)"
    using KDOP_inside_nth [of dirs 9 "(kdop_universal 9)[4 := 1]" "Vec3 0 0 0" 4]
    by (auto simp add: kdop18_101 universal_nth_lower dot_origin)
  have d: "\<not> KDOP_inside dirs 12
         (computeBV_KDOP24 (Halfspace_abcd 1 0 1 1) Identity (replicate 24 0)) (Vec3 0 0 0)"
    using KDOP_inside_nth [of dirs 12 "(kdop_universal 12)[4 := 1]" "Vec3 0 0 0" 4]
    by (auto simp add: kdop24_101 universal_nth_lower dot_origin)
  show ?thesis
    using a b c d by simp
qed

section \<open>Soundness of the box fit\<close>

text \<open>
  Every half-space that \<^verbatim>\<open>transform\<close> returns has a unit normal, so a normal with two
  zero components is a signed coordinate axis.
\<close>

lemma unit_normal_Halfspace_nd: "unit_normal (Halfspace_nd v e)"
proof (cases "v = Vec3 0 0 0")
  case True
  then show ?thesis
    by (simp add: Halfspace_nd_def unitNormalTest_def unit_normal_def norm3_def dot_def)
next
  case False
  then have "0 < norm3 v"
    by (simp add: norm3_pos_iff)
  then show ?thesis
    using norm3_scale_inv [OF False]
    by (simp add: Halfspace_nd_def unitNormalTest_def unit_normal_def Let_def)
qed

lemma unit_normal_transform: "unit_normal (transform s tf)"
  by (simp add: transform_def Let_def unit_normal_Halfspace_nd)

lemma unit_axis_cases:
  assumes "unit_normal h" 
  shows "(c1 (n_of h) = 0 \<and> c2 (n_of h) = 0 \<longrightarrow> c0 (n_of h) = 1 \<or> c0 (n_of h) = - 1)
       \<and> (c0 (n_of h) = 0 \<and> c2 (n_of h) = 0 \<longrightarrow> c1 (n_of h) = 1 \<or> c1 (n_of h) = - 1)
       \<and> (c0 (n_of h) = 0 \<and> c1 (n_of h) = 0 \<longrightarrow> c2 (n_of h) = 1 \<or> c2 (n_of h) = - 1)"
proof -
  obtain a b c e where h: "h = Halfspace_raw (Vec3 a b c) e"
    by (cases h, rename_tac v e, case_tac v) auto
  have sq: "a * a + b * b + c * c = 1"
    using norm3_sq [of "Vec3 a b c"] assms by (simp add: h unit_normal_def dot_def)
  show ?thesis
    using sq by (auto simp add: h square_eq_1_iff)
qed

text \<open>
  The axis-aligned box of a half-space contains every point of the transformed
  half-space whose coordinates are in the finite range of the scalar: the invariant of
  the fitting protocol, on the fitter whose branches test the nonzero component.
\<close>

lemma computeBV_AABB_sound:
  assumes "in_halfspace (transform s tf) p" and "representable p"
  shows "AABB_contain (computeBV_AABB s tf) p"
proof -
  obtain a b c e where t: "transform s tf = Halfspace_raw (Vec3 a b c) e"
    by (cases "transform s tf", rename_tac v e, case_tac v) auto
  have u: "unit_normal (Halfspace_raw (Vec3 a b c) e)"
    using unit_normal_transform [of s tf] by (simp add: t)
  note ax = unit_axis_cases [OF u]
  obtain x y z where p: "p = Vec3 x y z"
    by (cases p) auto
  have ih: "a * x + b * y + c * z \<le> e"
    using assms(1) by (simp add: t p in_halfspace_def dot_def)
  have r: "\<bar>x\<bar> \<le> FCL_REAL_max" "\<bar>y\<bar> \<le> FCL_REAL_max" "\<bar>z\<bar> \<le> FCL_REAL_max"
    using assms(2) by (simp_all add: representable_def p)
  have bounds: "- FCL_REAL_max \<le> x" "x \<le> FCL_REAL_max" "- FCL_REAL_max \<le> y"
    "y \<le> FCL_REAL_max" "- FCL_REAL_max \<le> z" "z \<le> FCL_REAL_max"
    using r by linarith+
  consider (x_axis) "b = 0 \<and> c = 0"
    | (y_axis) "\<not> (b = 0 \<and> c = 0)" "a = 0 \<and> c = 0"
    | (z_axis) "\<not> (b = 0 \<and> c = 0)" "\<not> (a = 0 \<and> c = 0)" "a = 0 \<and> b = 0"
    | (none) "\<not> (b = 0 \<and> c = 0)" "\<not> (a = 0 \<and> c = 0)" "\<not> (a = 0 \<and> b = 0)"
    by blast
  then show ?thesis
  proof cases
    case x_axis
    then have "a = 1 \<or> a = - 1"
      using ax by simp
    then show ?thesis
      using x_axis ih bounds
      by (auto simp add: computeBV_AABB_def fit_AABB_def t p Let_def AABB_contain_def set_min_def
            set_max_def set_coeff_def Constant_def)
  next
    case y_axis
    then have "b = 1 \<or> b = - 1"
      using ax by simp
    then show ?thesis
      using y_axis ih bounds
      by (auto simp add: computeBV_AABB_def fit_AABB_def t p Let_def AABB_contain_def set_min_def
            set_max_def set_coeff_def Constant_def)
  next
    case z_axis
    then have "c = 1 \<or> c = - 1"
      using ax by simp
    then show ?thesis
      using z_axis ih bounds
      by (auto simp add: computeBV_AABB_def fit_AABB_def t p Let_def AABB_contain_def set_min_def
            set_max_def set_coeff_def Constant_def)
  next
    case none
    then show ?thesis
      using bounds
      by (auto simp add: computeBV_AABB_def fit_AABB_def t p Let_def AABB_contain_def Constant_def)
  qed
qed

section \<open>Properties of the distance driver\<close>

lemma numeric_limits_max_pos: "0 < numeric_limits_max T"
  by (cases T) (simp_all add: numeric_limits_max_def)

lemma fold_max_ge_init: "m \<le> fold max xs (m::nat)"
proof (induction xs arbitrary: m)
  case Nil
  show ?case by simp
next
  case (Cons x xs)
  show ?case
    using Cons [of "max x m"] by simp
qed

lemma fold_max_ge_elem: "x \<in> set xs \<Longrightarrow> x \<le> fold max xs (m::nat)"
proof (induction xs arbitrary: m)
  case Nil
  then show ?case by simp
next
  case (Cons y ys)
  show ?case
  proof (cases "x = y")
    case True
    then show ?thesis
      using fold_max_ge_init [of "max y m" ys] by simp
  next
    case False
    then show ?thesis
      using Cons by simp
  qed
qed

lemma fresh_not_live: "Suc (fold max xs 0) \<notin> set xs"
  using fold_max_ge_elem [of "Suc (fold max xs 0)" xs 0] by auto

lemmas trace_projection_defs = warnings_def invocations_def heap_events_def tables_built_def

lemma unsupported_lookup:
  assumes "(if getObjectType o1 = OT_GEOM \<and> getObjectType o2 = OT_BVH
            then tables S (getNodeType o2) (getNodeType o1)
            else tables S (getNodeType o1) (getNodeType o2)) = None"
  shows "unsupported_outcome T o1 o2 result w
           (distance_NarrowPhaseSolver tables T S o1 tf1 o2 tf2 nsolver0 request result w)"
  using assms
  by (cases nsolver0)
     (auto simp add: unsupported_outcome_def distance_NarrowPhaseSolver_def Let_def
        new_solver_def delete_solver_def getDistanceFunctionLookTable_def warn_def
        trace_projection_defs split: if_splits)

text \<open>
  C4. When the cell of the table that the driver looks up for a pair of geometries is
  empty, the call returns the largest finite scalar as the sentinel, leaves the result
  object as the caller passed it, adds one warning that names the node types of the
  first and of the second argument, and invokes no routine. For a primitive and a
  hierarchy whose cell (row: the hierarchy) is empty this is the outcome of both
  argument orders. The driver is a total function: it has no failure but the sentinel.
\<close>

theorem unsupported_pair:
  "((if getObjectType o1 = OT_GEOM \<and> getObjectType o2 = OT_BVH
     then tables S (getNodeType o2) (getNodeType o1)
     else tables S (getNodeType o1) (getNodeType o2)) = None
    \<longrightarrow> unsupported_outcome T o1 o2 result w
          (distance_NarrowPhaseSolver tables T S o1 tf1 o2 tf2 nsolver0 request result w))
   \<and> (getObjectType p = OT_GEOM \<and> getObjectType h = OT_BVH
      \<and> tables S (getNodeType h) (getNodeType p) = None
    \<longrightarrow> unsupported_outcome T p h result w
          (distance_NarrowPhaseSolver tables T S p tfp h tfh nsolver0 request result w)
      \<and> unsupported_outcome T h p result w
          (distance_NarrowPhaseSolver tables T S h tfh p tfp nsolver0 request result w))"
proof -
  have general: "(if getObjectType o1 = OT_GEOM \<and> getObjectType o2 = OT_BVH
     then tables S (getNodeType o2) (getNodeType o1)
     else tables S (getNodeType o1) (getNodeType o2)) = None
    \<longrightarrow> unsupported_outcome T o1 o2 result w
          (distance_NarrowPhaseSolver tables T S o1 tf1 o2 tf2 nsolver0 request result w)"
    using unsupported_lookup [of o1 o2 tables S] by blast
  have mixed: "getObjectType p = OT_GEOM \<and> getObjectType h = OT_BVH
      \<and> tables S (getNodeType h) (getNodeType p) = None
    \<longrightarrow> unsupported_outcome T p h result w
          (distance_NarrowPhaseSolver tables T S p tfp h tfh nsolver0 request result w)
      \<and> unsupported_outcome T h p result w
          (distance_NarrowPhaseSolver tables T S h tfh p tfp nsolver0 request result w)"
  proof (intro impI conjI)
    assume a: "getObjectType p = OT_GEOM \<and> getObjectType h = OT_BVH
      \<and> tables S (getNodeType h) (getNodeType p) = None"
    show "unsupported_outcome T p h result w
          (distance_NarrowPhaseSolver tables T S p tfp h tfh nsolver0 request result w)"
      using a by (intro unsupported_lookup) simp
    show "unsupported_outcome T h p result w
          (distance_NarrowPhaseSolver tables T S h tfh p tfp nsolver0 request result w)"
      using a by (intro unsupported_lookup) simp
  qed
  show ?thesis
    using general mixed by blast
qed

theorem unsupported_pair_witness:
  "(if getObjectType example_box = OT_GEOM \<and> getObjectType example_sphere = OT_BVH
     then example_tables GJKSolver_indep (getNodeType example_sphere) (getNodeType example_box)
     else example_tables GJKSolver_indep (getNodeType example_box) (getNodeType example_sphere)) = None
   \<and> unsupported_outcome Double example_box example_sphere (0::nat) example_world
          (distance_NarrowPhaseSolver example_tables Double GJKSolver_indep
             example_box Identity example_sphere Identity None
             \<lparr>gjk_solver_type = GST_INDEP\<rparr> 0 example_world)
   \<and> (getObjectType example_sphere = OT_GEOM \<and> getObjectType example_mesh = OT_BVH
      \<and> example_tables GJKSolver_indep (getNodeType example_mesh) (getNodeType example_sphere) = None)
   \<and> unsupported_outcome Double example_sphere example_mesh (0::nat) example_world
          (distance_NarrowPhaseSolver example_tables Double GJKSolver_indep
             example_sphere Identity example_mesh Identity None
             \<lparr>gjk_solver_type = GST_INDEP\<rparr> 0 example_world)
   \<and> unsupported_outcome Double example_mesh example_sphere (0::nat) example_world
          (distance_NarrowPhaseSolver example_tables Double GJKSolver_indep
             example_mesh Identity example_sphere Identity None
             \<lparr>gjk_solver_type = GST_INDEP\<rparr> 0 example_world)
   \<and> distance_NarrowPhaseSolver example_tables Double GJKSolver_indep
             example_mesh Identity example_sphere Identity None
             \<lparr>gjk_solver_type = GST_INDEP\<rparr> 0 example_world
       = (numeric_limits_max Double, 0,
          \<lparr>trace = [New_solver 1, Build_table GJKSolver_indep, Warning 2 10, Delete_solver 1],
           live = [], built = [GJKSolver_indep]\<rparr>)"
proof -
  have h1: "(if getObjectType example_box = OT_GEOM \<and> getObjectType example_sphere = OT_BVH
     then example_tables GJKSolver_indep (getNodeType example_sphere) (getNodeType example_box)
     else example_tables GJKSolver_indep (getNodeType example_box) (getNodeType example_sphere)) = None"
    by (simp add: example_box_def example_sphere_def example_tables_def)
  have h2: "getObjectType example_sphere = OT_GEOM \<and> getObjectType example_mesh = OT_BVH
      \<and> example_tables GJKSolver_indep (getNodeType example_mesh) (getNodeType example_sphere) = None"
    by (simp add: example_mesh_def example_sphere_def example_tables_def)
  have t: "((if getObjectType example_box = OT_GEOM \<and> getObjectType example_sphere = OT_BVH
     then example_tables GJKSolver_indep (getNodeType example_sphere) (getNodeType example_box)
     else example_tables GJKSolver_indep (getNodeType example_box) (getNodeType example_sphere)) = None
    \<longrightarrow> unsupported_outcome Double example_box example_sphere (0::nat) example_world
          (distance_NarrowPhaseSolver example_tables Double GJKSolver_indep
             example_box Identity example_sphere Identity None
             \<lparr>gjk_solver_type = GST_INDEP\<rparr> 0 example_world))
   \<and> (getObjectType example_sphere = OT_GEOM \<and> getObjectType example_mesh = OT_BVH
      \<and> example_tables GJKSolver_indep (getNodeType example_mesh) (getNodeType example_sphere) = None
    \<longrightarrow> unsupported_outcome Double example_sphere example_mesh (0::nat) example_world
          (distance_NarrowPhaseSolver example_tables Double GJKSolver_indep
             example_sphere Identity example_mesh Identity None
             \<lparr>gjk_solver_type = GST_INDEP\<rparr> 0 example_world)
      \<and> unsupported_outcome Double example_mesh example_sphere (0::nat) example_world
          (distance_NarrowPhaseSolver example_tables Double GJKSolver_indep
             example_mesh Identity example_sphere Identity None
             \<lparr>gjk_solver_type = GST_INDEP\<rparr> 0 example_world))"
    by (rule unsupported_pair)
  have v: "distance_NarrowPhaseSolver example_tables Double GJKSolver_indep
             example_mesh Identity example_sphere Identity None
             \<lparr>gjk_solver_type = GST_INDEP\<rparr> 0 example_world
       = (numeric_limits_max Double, 0,
          \<lparr>trace = [New_solver 1, Build_table GJKSolver_indep, Warning 2 10, Delete_solver 1],
           live = [], built = [GJKSolver_indep]\<rparr>)"
    by (simp add: distance_NarrowPhaseSolver_def Let_def getDistanceFunctionLookTable_def
          new_solver_def delete_solver_def warn_def example_mesh_def example_sphere_def
          example_tables_def example_world_def)
  show ?thesis
    using t h1 h2 v by blast
qed

text \<open>
  C5. For a primitive \<open>p\<close> and a hierarchy \<open>h\<close>, the calls \<open>distance(p, tfp, h, tfh)\<close>
  and \<open>distance(h, tfh, p, tfp)\<close> from the same state return the same distance and the
  same result object and invoke the same routines: both look up the cell of row \<open>h\<close>
  and column \<open>p\<close>, and when it holds a routine both invoke it once, on
  \<open>(h, tfh, p, tfp)\<close> with the solver of the call, and return what it returns.
\<close>

theorem mixed_kind_order_invariance:
  assumes "getObjectType p = OT_GEOM" and "getObjectType h = OT_BVH"
  shows
    "case distance_NarrowPhaseSolver tables T S p tfp h tfh nsolver0 request result w of
       (res1, result1, w1) \<Rightarrow>
     case distance_NarrowPhaseSolver tables T S h tfh p tfp nsolver0 request result w of
       (res2, result2, w2) \<Rightarrow>
         res1 = res2 \<and> result1 = result2
         \<and> invocations (trace w1) = invocations (trace w2)
         \<and> (case tables S (getNodeType h) (getNodeType p) of
              None \<Rightarrow>
                res1 = numeric_limits_max T \<and> result1 = result
                \<and> invocations (trace w1) = invocations (trace w)
            | Some f \<Rightarrow>
                (res1, result1) = f h tfh p tfp (solver_address nsolver0 w) request result
                \<and> invocations (trace w1) = invocations (trace w)
                     @ [Invoke (getNodeType h) (getNodeType p) h tfh p tfp
                          (solver_address nsolver0 w)])"
  using assms
  by (cases nsolver0)
     (auto simp add: distance_NarrowPhaseSolver_def Let_def getDistanceFunctionLookTable_def
        new_solver_def delete_solver_def warn_def invoked_def solver_address_def
        trace_projection_defs split: option.splits prod.splits)

theorem mixed_kind_order_invariance_witness:
  "getObjectType example_box = OT_GEOM \<and> getObjectType example_mesh = OT_BVH
   \<and> (case distance_NarrowPhaseSolver example_tables Double GJKSolver_libccd
          example_box Identity example_mesh Identity (Some 5)
          \<lparr>gjk_solver_type = GST_LIBCCD\<rparr> (0::nat) example_world of
       (res1, result1, w1) \<Rightarrow>
     case distance_NarrowPhaseSolver example_tables Double GJKSolver_libccd
          example_mesh Identity example_box Identity (Some 5)
          \<lparr>gjk_solver_type = GST_LIBCCD\<rparr> 0 example_world of
       (res2, result2, w2) \<Rightarrow>
         res1 = res2 \<and> result1 = result2
         \<and> invocations (trace w1) = invocations (trace w2)
         \<and> (case example_tables GJKSolver_libccd (getNodeType example_mesh)
                   (getNodeType example_box) of
              None \<Rightarrow>
                res1 = numeric_limits_max Double \<and> result1 = 0
                \<and> invocations (trace w1) = invocations (trace example_world)
            | Some f \<Rightarrow>
                (res1, result1) = f example_mesh Identity example_box Identity
                                    (solver_address (Some 5) example_world)
                                    \<lparr>gjk_solver_type = GST_LIBCCD\<rparr> 0
                \<and> invocations (trace w1) = invocations (trace example_world)
                     @ [Invoke (getNodeType example_mesh) (getNodeType example_box)
                          example_mesh Identity example_box Identity
                          (solver_address (Some 5) example_world)]))
   \<and> distance_NarrowPhaseSolver example_tables Double GJKSolver_libccd
        example_box Identity example_mesh Identity (Some 5)
        \<lparr>gjk_solver_type = GST_LIBCCD\<rparr> 0 example_world
      = (12, 1, \<lparr>trace = [Build_table GJKSolver_libccd,
                            Invoke 2 9 example_mesh Identity example_box Identity 5],
                  live = [], built = [GJKSolver_libccd]\<rparr>)"
proof -
  have g: "getObjectType example_box = OT_GEOM"
    by (simp add: example_box_def)
  have b: "getObjectType example_mesh = OT_BVH"
    by (simp add: example_mesh_def)
  have v1: "distance_NarrowPhaseSolver example_tables Double GJKSolver_libccd
        example_box Identity example_mesh Identity (Some 5)
        \<lparr>gjk_solver_type = GST_LIBCCD\<rparr> 0 example_world
      = (12, 1, \<lparr>trace = [Build_table GJKSolver_libccd,
                            Invoke 2 9 example_mesh Identity example_box Identity 5],
                  live = [], built = [GJKSolver_libccd]\<rparr>)"
    by (simp add: distance_NarrowPhaseSolver_def Let_def getDistanceFunctionLookTable_def
          invoked_def example_mesh_def example_box_def example_routine_def
          example_tables_def example_world_def)
  note inst = mixed_kind_order_invariance [OF g b, where tables = example_tables and T = Double
        and S = GJKSolver_libccd and tfp = Identity and tfh = Identity and ?nsolver0.0 = "Some 5"
        and request = "\<lparr>gjk_solver_type = GST_LIBCCD\<rparr>" and result = "0::nat"
        and w = example_world]
  show ?thesis
    using g b inst v1 by blast
qed

text \<open>
  C9. A call with a solver of the caller's neither allocates nor releases a solver: the
  solver is borrowed. A call with the null pointer allocates a solver at an address that
  was not alive as the first thing it does, releases that address as the last thing it
  does, and allocates or releases nothing in between, whether the pair is supported or
  not; the solvers alive after the call are those alive before it.
\<close>

theorem solver_lifecycle:
  "(case distance_NarrowPhaseSolver tables T S o1 tf1 o2 tf2 (Some p) request result w of
      (res, result', w') \<Rightarrow>
        heap_events (trace w') = heap_events (trace w) \<and> live w' = live w)
   \<and> (case distance_NarrowPhaseSolver tables T S o1 tf1 o2 tf2 None request result w of
      (res, result', w') \<Rightarrow>
        Suc (fold max (live w) 0) \<notin> set (live w)
        \<and> (\<exists>mid. trace w' = trace w @ [New_solver (Suc (fold max (live w) 0))] @ mid
                              @ [Delete_solver (Suc (fold max (live w) 0))]
                  \<and> heap_events mid = [])
        \<and> heap_events (trace w') = heap_events (trace w)
              @ [New_solver (Suc (fold max (live w) 0)), Delete_solver (Suc (fold max (live w) 0))]
        \<and> live w' = live w)"
proof -
  have borrowed:
    "case distance_NarrowPhaseSolver tables T S o1 tf1 o2 tf2 (Some p) request result w of
      (res, result', w') \<Rightarrow>
        heap_events (trace w') = heap_events (trace w) \<and> live w' = live w"
    by (auto simp add: distance_NarrowPhaseSolver_def Let_def getDistanceFunctionLookTable_def
          warn_def invoked_def trace_projection_defs split: option.splits prod.splits)
  have owned:
    "case distance_NarrowPhaseSolver tables T S o1 tf1 o2 tf2 None request result w of
      (res, result', w') \<Rightarrow>
        Suc (fold max (live w) 0) \<notin> set (live w)
        \<and> (\<exists>mid. trace w' = trace w @ [New_solver (Suc (fold max (live w) 0))] @ mid
                              @ [Delete_solver (Suc (fold max (live w) 0))]
                  \<and> heap_events mid = [])
        \<and> heap_events (trace w') = heap_events (trace w)
              @ [New_solver (Suc (fold max (live w) 0)), Delete_solver (Suc (fold max (live w) 0))]
        \<and> live w' = live w"
    using fresh_not_live [of "live w"]
    by (auto simp add: distance_NarrowPhaseSolver_def Let_def getDistanceFunctionLookTable_def
          new_solver_def delete_solver_def warn_def invoked_def trace_projection_defs
          split: option.splits prod.splits)
  show ?thesis
    using borrowed owned by blast
qed

text \<open>
  C10. When the solver selector of the request is neither \<^verbatim>\<open>GST_LIBCCD\<close> nor
  \<^verbatim>\<open>GST_INDEP\<close>, both entry points templated on the scalar return \<open>-1\<close> and leave the
  result object and the world as they were: no table is built and no routine invoked.
  The value \<open>-1\<close> is not the sentinel of an unsupported pair.
\<close>

theorem invalid_solver_type:
  assumes "gjk_solver_type request \<noteq> GST_LIBCCD" and "gjk_solver_type request \<noteq> GST_INDEP"
  shows "distance_obj tables T o1 o2 request result w = (- 1, result, w)
       \<and> distance_geom tables T g1 tf1 g2 tf2 request result w = (- 1, result, w)
       \<and> - 1 \<noteq> numeric_limits_max T"
  using assms numeric_limits_max_pos [of T]
  by (cases "gjk_solver_type request") (simp_all add: distance_obj_def distance_geom_def)

theorem invalid_solver_type_witness:
  "gjk_solver_type \<lparr>gjk_solver_type = GST_other 7\<rparr> \<noteq> GST_LIBCCD
   \<and> gjk_solver_type \<lparr>gjk_solver_type = GST_other 7\<rparr> \<noteq> GST_INDEP
   \<and> distance_obj example_tables Float
        \<lparr>collisionGeometry = example_mesh, getTransform = Identity\<rparr>
        \<lparr>collisionGeometry = example_box, getTransform = Identity\<rparr>
        \<lparr>gjk_solver_type = GST_other 7\<rparr> (0::nat) example_world = (- 1, 0, example_world)
   \<and> distance_geom example_tables Float example_mesh Identity example_box Identity
        \<lparr>gjk_solver_type = GST_other 7\<rparr> (0::nat) example_world = (- 1, 0, example_world)
   \<and> - 1 \<noteq> numeric_limits_max Float"
proof -
  have h1: "gjk_solver_type \<lparr>gjk_solver_type = GST_other 7\<rparr> \<noteq> GST_LIBCCD"
    by simp
  have h2: "gjk_solver_type \<lparr>gjk_solver_type = GST_other 7\<rparr> \<noteq> GST_INDEP"
    by simp
  show ?thesis
    using invalid_solver_type [OF h1 h2, of example_tables Float
        "\<lparr>collisionGeometry = example_mesh, getTransform = Identity\<rparr>"
        "\<lparr>collisionGeometry = example_box, getTransform = Identity\<rparr>"
        "0::nat" example_world example_mesh Identity example_box Identity] h1 h2
    by blast
qed

end
